theory Spec2Isabelle
  imports Complex_Main "HOL-Library.Product_Lexorder" "HOL-Library.List_Lexorder"
    "HOL-Library.Char_ord" "HOL-Library.Multiset"
begin

section \<open>The accounting tables\<close>

text \<open>
  The double-entry part of the application lives in two route files (accounts and
  reports) that talk to three PostgreSQL tables: \<open>accounts\<close>, \<open>transactions\<close> and
  \<open>transaction_entries\<close>.  A table is a list of rows; a nullable column is an
  \<open>option\<close>; a \<open>DATE\<close> is a day number.  \<open>DECIMAL(15,2)\<close> amounts are exact
  rationals, in the tables and wherever a response passes a column on (the driver
  hands them over as decimal strings).  Where a handler computes with them in
  JavaScript it computes with binary64 numbers, modelled below.  Only the columns that
  the handlers read or write are kept.  The two \<open>SERIAL\<close> sequences are part of the state.

  The module \<open>config/db\<close> that the routes import is not among the sources.  A call
  \<open>db.query(sql, params)\<close> is read as one statement run against these tables and
  committed on its own, which throws when the database rejects the statement; the
  constraints are those of the schema.
\<close>

datatype account_type = Asset | Liability | Equity | Revenue | Expense

record account =
  a_id :: int
  a_account_number :: string
  a_account_name :: string
  a_account_type :: account_type
  a_parent_account_id :: "int option"

record txn =
  t_id :: int
  t_transaction_number :: string
  t_reference_number :: "string option"
  t_transaction_type :: string
  t_description :: string
  t_date :: "int option"
  t_status :: string

record entry =
  e_id :: int
  e_transaction_id :: "int option"
  e_account_id :: "int option"
  e_debit_amount :: "rat option"
  e_credit_amount :: "rat option"
  e_description :: "string option"

record db =
  accounts :: "account list"
  transactions :: "txn list"
  transaction_entries :: "entry list"
  transactions_id_seq :: int
  transaction_entries_id_seq :: int

section \<open>SQL expressions\<close>

definition coalesce0 :: "rat option \<Rightarrow> rat" where
  \<comment> \<open>\<open>COALESCE(x, 0)\<close>\<close>
  "coalesce0 x = (case x of None \<Rightarrow> 0 | Some v \<Rightarrow> v)"

definition sql_sum :: "rat option list \<Rightarrow> rat option" where
  \<comment> \<open>\<open>SUM\<close> skips NULLs and is NULL when no non-NULL input remains\<close>
  "sql_sum xs =
     (case filter (\<lambda>x. x \<noteq> None) xs of
        [] \<Rightarrow> None
      | ys \<Rightarrow> Some (sum_list (map coalesce0 ys)))"

definition sql_minus :: "rat option \<Rightarrow> rat option \<Rightarrow> rat option" where
  \<comment> \<open>subtraction propagates NULL\<close>
  "sql_minus x y =
     (case x of None \<Rightarrow> None
      | Some a \<Rightarrow> (case y of None \<Rightarrow> None | Some b \<Rightarrow> Some (a - b)))"

definition entries_of :: "db \<Rightarrow> int \<Rightarrow> entry list" where
  \<comment> \<open>\<open>FROM transaction_entries WHERE account_id = $1\<close>\<close>
  "entries_of d accountId =
     filter (\<lambda>e. e_account_id e = Some accountId) (transaction_entries d)"

section \<open>Responses\<close>

datatype json =
    JNull
  | JBool bool
  | JNum rat
  | JStr string
  | JArr "json list"
  | JObj "(string \<times> json) list"

datatype response =
    Json nat json
  | Send nat string


fun json_bools :: "json \<Rightarrow> bool list" where
  "json_bools JNull = []"
| "json_bools (JBool b) = [b]"
| "json_bools (JNum r) = []"
| "json_bools (JStr s) = []"
| "json_bools (JArr js) = concat (map json_bools js)"
| "json_bools (JObj fs) = concat (map (\<lambda>(k, v). json_bools v) fs)"

fun field :: "string \<Rightarrow> json \<Rightarrow> json option" where
  "field k (JObj fs) = map_of fs k"
| "field k j = None"

fun body :: "response \<Rightarrow> json" where
  "body (Json status j) = j"
| "body (Send status s) = JStr s"

definition missing_token :: "string option \<Rightarrow> bool" where
  \<comment> \<open>\<open>!token\<close>: the header is absent or empty\<close>
  "missing_token tok = (tok = None \<or> tok = Some [])"

definition unauthorized :: response where
  "unauthorized = Json 401 (JObj [(''msg'', JStr ''No token, authorization denied'')])"

definition server_error :: response where
  \<comment> \<open>the \<open>catch\<close> branch shared by every handler\<close>
  "server_error = Send 500 ''Server error''"

section \<open>JavaScript numbers\<close>

text \<open>
  A JavaScript number is an IEEE 754 binary64 value: a rational with a significand of 53
  bits (less in the subnormal range), an infinity, or NaN.  The sign of zero is not
  kept.  \<open>round_double\<close> is rounding to nearest, ties to even: the result of every
  arithmetic operation is the rounded exact result, and a decimal literal or string
  denotes the rounded decimal.
\<close>

datatype jsnum = Fin rat | PosInf | NegInf | NaN

fun bit_length :: "nat \<Rightarrow> nat" where
  "bit_length n = (if n = 0 then 0 else Suc (bit_length (n div 2)))"

declare bit_length.simps [simp del]

definition pow2 :: "int \<Rightarrow> rat" where
  "pow2 k = (if 0 \<le> k then 2 ^ nat k else 1 / 2 ^ nat (- k))"

definition exponent :: "rat \<Rightarrow> int" where
  \<comment> \<open>for \<open>a > 0\<close>, the \<open>e\<close> with \<open>2 ^ e \<le> a < 2 ^ (e + 1)\<close>\<close>
  "exponent a =
     (if 1 \<le> a then int (bit_length (nat \<lfloor>a\<rfloor>)) - 1
      else let j = int (bit_length (nat \<lfloor>1 / a\<rfloor>)) - 1
           in if a * pow2 j = 1 then - j else - j - 1)"

definition round_half_even :: "rat \<Rightarrow> int" where
  "round_half_even x =
     (let f = \<lfloor>x\<rfloor>; r = x - of_int f
      in if r < 1 / 2 then f else if 1 / 2 < r then f + 1
         else if even f then f else f + 1)"

definition quantum :: "rat \<Rightarrow> int" where
  \<comment> \<open>the exponent of the last place of the binary64 numbers around \<open>a > 0\<close>\<close>
  "quantum a = max (exponent a - 52) (- 1074)"

definition round_to :: "int \<Rightarrow> rat \<Rightarrow> rat" where
  \<comment> \<open>the multiple of \<open>2 ^ q\<close> nearest to \<open>a\<close>\<close>
  "round_to q a = of_int (round_half_even (a / pow2 q)) * pow2 q"

definition round_double :: "rat \<Rightarrow> jsnum" where
  "round_double x =
     (if x = 0 then Fin 0
      else
        let r = round_to (quantum \<bar>x\<bar>) \<bar>x\<bar>
        in if 2 ^ 1024 \<le> r then (if 0 < x then PosInf else NegInf)
           else Fin (sgn x * r))"

fun fneg :: "jsnum \<Rightarrow> jsnum" where
  "fneg (Fin a) = Fin (- a)"
| "fneg PosInf = NegInf"
| "fneg NegInf = PosInf"
| "fneg NaN = NaN"

fun fadd :: "jsnum \<Rightarrow> jsnum \<Rightarrow> jsnum" where
  \<comment> \<open>\<open>x + y\<close>\<close>
  "fadd (Fin a) (Fin b) = round_double (a + b)"
| "fadd NaN y = NaN"
| "fadd x NaN = NaN"
| "fadd PosInf NegInf = NaN"
| "fadd NegInf PosInf = NaN"
| "fadd PosInf y = PosInf"
| "fadd NegInf y = NegInf"
| "fadd x PosInf = PosInf"
| "fadd x NegInf = NegInf"

definition fsub :: "jsnum \<Rightarrow> jsnum \<Rightarrow> jsnum" where
  \<comment> \<open>\<open>x - y\<close>\<close>
  "fsub x y = fadd x (fneg y)"

fun js_abs :: "jsnum \<Rightarrow> jsnum" where
  \<comment> \<open>\<open>Math.abs(x)\<close>\<close>
  "js_abs (Fin a) = Fin \<bar>a\<bar>"
| "js_abs PosInf = PosInf"
| "js_abs NegInf = PosInf"
| "js_abs NaN = NaN"

fun js_gt :: "jsnum \<Rightarrow> jsnum \<Rightarrow> bool" where
  \<comment> \<open>\<open>x > y\<close>: false whenever NaN is compared\<close>
  "js_gt (Fin a) (Fin b) = (b < a)"
| "js_gt NaN y = False"
| "js_gt x NaN = False"
| "js_gt PosInf PosInf = False"
| "js_gt PosInf y = True"
| "js_gt x PosInf = False"
| "js_gt NegInf y = False"
| "js_gt x NegInf = True"

definition parseFloat :: "rat \<Rightarrow> jsnum" where
  \<comment> \<open>\<open>parseFloat(s)\<close> for the decimal string \<open>s\<close> of a numeric value\<close>
  "parseFloat x = round_double x"

fun jsnum_json :: "jsnum \<Rightarrow> json" where
  \<comment> \<open>\<open>JSON.stringify\<close> writes a finite number as it is, and the others as null\<close>
  "jsnum_json (Fin a) = JNum a"
| "jsnum_json x = JNull"

definition double_sum :: "rat list \<Rightarrow> jsnum" where
  \<comment> \<open>\<open>rows.reduce((sum, row) => sum + parseFloat(row.col), 0)\<close> over the values of a
      column: the binary64 sum, from left to right, of the rounded decimals\<close>
  "double_sum xs = foldl (\<lambda>sum x. fadd sum (parseFloat x)) (Fin 0) xs"

section \<open>GET /balance/:id\<close>

definition balance_query :: "db \<Rightarrow> int \<Rightarrow> rat option" where
  "balance_query d accountId =
     (let rows = entries_of d accountId in
      sql_minus (sql_sum (map (\<lambda>e. Some (coalesce0 (e_credit_amount e))) rows))
                (sql_sum (map (\<lambda>e. Some (coalesce0 (e_debit_amount e))) rows)))"

definition get_balance :: "string option \<Rightarrow> int \<Rightarrow> db \<Rightarrow> response" where
  "get_balance tok accountId d =
     (if missing_token tok then unauthorized
      else
        let balance = (case balance_query d accountId of None \<Rightarrow> 0 | Some b \<Rightarrow> b)
        in Json 200 (JObj [(''account_id'', JNum (of_int accountId)),
                           (''balance'', JNum balance)]))"

section \<open>GET /:id\<close>

definition accounts_by_id :: "db \<Rightarrow> int \<Rightarrow> account list" where
  \<comment> \<open>\<open>SELECT * FROM accounts WHERE id = $1\<close>\<close>
  "accounts_by_id d accountId = filter (\<lambda>a. a_id a = accountId) (accounts d)"

section \<open>DELETE /:id\<close>

definition sql_delete_account :: "db \<Rightarrow> int \<Rightarrow> db option" where
  \<comment> \<open>\<open>DELETE FROM accounts WHERE id = $1\<close>.  The statement is rejected (\<open>None\<close>) when a
      row it would remove is still referenced through one of the two foreign keys on
      \<open>accounts(id)\<close>: \<open>accounts.parent_account_id\<close> and
      \<open>transaction_entries.account_id\<close>, neither of which cascades.\<close>
  "sql_delete_account d accountId =
     (let removed = filter (\<lambda>a. a_id a = accountId) (accounts d);
          remaining = filter (\<lambda>a. a_id a \<noteq> accountId) (accounts d)
      in if removed \<noteq> [] \<and>
            (list_ex (\<lambda>a. a_parent_account_id a = Some accountId) remaining \<or>
             list_ex (\<lambda>e. e_account_id e = Some accountId) (transaction_entries d))
         then None
         else Some (d\<lparr>accounts := remaining\<rparr>))"

definition delete_account :: "string option \<Rightarrow> int \<Rightarrow> db \<Rightarrow> response \<times> db" where
  "delete_account tok accountId d =
     (if missing_token tok then (unauthorized, d)
      else
        let count = length (entries_of d accountId) in
        if count > 0 then
          (Json 400 (JObj [(''msg'', JStr ''Cannot delete account with existing transactions'')]), d)
        else
          (case sql_delete_account d accountId of
             None \<Rightarrow> (server_error, d)
           | Some d' \<Rightarrow> (Json 200 (JObj [(''msg'', JStr ''Account removed'')]), d')))"

section \<open>POST /transactions\<close>

text \<open>
  The request body.  \<open>transaction_type\<close> and \<open>description\<close> are strings, an absent field
  being the empty string (the validator rejects both alike, before the handler reads
  them).  In an entry every field may be absent; an amount is the decimal literal of
  the JSON body.  The handler adds the amounts as binary64 numbers.  What it hands to
  the driver is written there in the shortest decimal form of the number, which for a
  literal of up to 15 significant digits is the literal itself: the model stores the
  literal.  The clock, the random number and the current day are inputs.
\<close>

record entry_in =
  ei_account_id :: "int option"
  ei_debit_amount :: "rat option"
  ei_credit_amount :: "rat option"
  ei_description :: "string option"

record post_request =
  rq_token :: "string option"
  rq_transaction_type :: string
  rq_description :: string
  rq_date :: "int option"
  rq_entries :: "entry_in list"
  rq_reference_number :: "string option"

record env =
  now :: nat
  random :: rat
  today :: int

definition or0 :: "rat option \<Rightarrow> rat" where
  \<comment> \<open>\<open>x || 0\<close> on an amount: absent, null and 0 all give 0\<close>
  "or0 x = (case x of None \<Rightarrow> 0 | Some v \<Rightarrow> v)"

definition validation_errors :: "post_request \<Rightarrow> string list" where
  \<comment> \<open>the three express-validator chains, each error given by its message\<close>
  "validation_errors rq =
     (if rq_transaction_type rq = [] then [''Transaction type is required''] else []) @
     (if rq_description rq = [] then [''Description is required''] else []) @
     (if length (rq_entries rq) < 2 then [''Transaction entries are required''] else [])"

fun show_nat :: "nat \<Rightarrow> string" where
  "show_nat n =
     (if n < 10 then [''0123456789'' ! n]
      else show_nat (n div 10) @ [''0123456789'' ! (n mod 10)])"

declare show_nat.simps [simp del]

definition transaction_number :: "env \<Rightarrow> string" where
  \<comment> \<open>\<open>`TXN${Date.now()}${Math.floor(1000 + Math.random() * 9000)}`\<close>\<close>
  "transaction_number ev =
     ''TXN'' @ show_nat (now ev) @ show_nat (nat \<lfloor>1000 + random ev * 9000\<rfloor>)"

definition transaction_types :: "string list" where
  "transaction_types = [''crv'', ''cpv'', ''bpv'', ''brv'', ''jv'']"

definition insert_transaction ::
  "db \<Rightarrow> string \<Rightarrow> string option \<Rightarrow> string \<Rightarrow> string \<Rightarrow> int \<Rightarrow> int option \<times> db" where
  \<comment> \<open>\<open>INSERT INTO transactions ... RETURNING id\<close>: the sequence advances; the row is
      rejected on a primary-key or \<open>UNIQUE\<close> clash, an over-long \<open>VARCHAR\<close> or a type
      outside the \<open>CHECK\<close> list; \<open>status\<close> takes its default.\<close>
  "insert_transaction d num ref ty descr dt =
     (let newid = transactions_id_seq d;
          d1 = d\<lparr>transactions_id_seq := newid + 1\<rparr>
      in if newid \<in> set (map t_id (transactions d))
            \<or> num \<in> set (map t_transaction_number (transactions d))
            \<or> length num > 100
            \<or> (case ref of None \<Rightarrow> False | Some r \<Rightarrow> length r > 100)
            \<or> length ty > 50
            \<or> ty \<notin> set transaction_types
         then (None, d1)
         else (Some newid,
               d1\<lparr>transactions := transactions d @
                    [\<lparr>t_id = newid, t_transaction_number = num, t_reference_number = ref,
                      t_transaction_type = ty, t_description = descr, t_date = Some dt,
                      t_status = ''pending''\<rparr>]\<rparr>))"

definition round2 :: "rat \<Rightarrow> rat" where
  \<comment> \<open>storing into \<open>DECIMAL(15,2)\<close> rounds to two places, halves away from zero\<close>
  "round2 x = sgn x * of_int \<lfloor>\<bar>x\<bar> * 100 + 1 / 2\<rfloor> / 100"

definition insert_entry :: "db \<Rightarrow> int \<Rightarrow> entry_in \<Rightarrow> bool \<times> db" where
  \<comment> \<open>\<open>INSERT INTO transaction_entries\<close>: rejected on a primary-key clash, a dangling
      \<open>transaction_id\<close> or \<open>account_id\<close>, or an amount too large for the column.\<close>
  "insert_entry d transactionId e =
     (let newid = transaction_entries_id_seq d;
          d1 = d\<lparr>transaction_entries_id_seq := newid + 1\<rparr>;
          debit = round2 (or0 (ei_debit_amount e));
          credit = round2 (or0 (ei_credit_amount e))
      in if newid \<in> set (map e_id (transaction_entries d))
            \<or> transactionId \<notin> set (map t_id (transactions d))
            \<or> (case ei_account_id e of None \<Rightarrow> False
                | Some a \<Rightarrow> a \<notin> set (map a_id (accounts d)))
            \<or> \<bar>debit\<bar> \<ge> 10 ^ 13
            \<or> \<bar>credit\<bar> \<ge> 10 ^ 13
         then (False, d1)
         else (True,
               d1\<lparr>transaction_entries := transaction_entries d @
                    [\<lparr>e_id = newid, e_transaction_id = Some transactionId,
                      e_account_id = ei_account_id e, e_debit_amount = Some debit,
                      e_credit_amount = Some credit,
                      e_description = ei_description e\<rparr>]\<rparr>))"

fun insert_entries :: "db \<Rightarrow> int \<Rightarrow> entry_in list \<Rightarrow> bool \<times> db" where
  \<comment> \<open>the \<open>for (const entry of entries)\<close> loop: one statement per entry, each committed
      on its own; the first rejected statement throws and ends the loop\<close>
  "insert_entries d transactionId [] = (True, d)"
| "insert_entries d transactionId (e # es) =
     (case insert_entry d transactionId e of
        (False, d') \<Rightarrow> (False, d')
      | (True, d') \<Rightarrow> insert_entries d' transactionId es)"

definition js_amount :: "rat option \<Rightarrow> jsnum" where
  \<comment> \<open>\<open>entry.debit_amount || 0\<close> as the handler adds it: the binary64 number of the
      literal, 0 when the field is absent or zero\<close>
  "js_amount x = (case x of None \<Rightarrow> Fin 0 | Some v \<Rightarrow> round_double v)"

definition total_debits :: "entry_in list \<Rightarrow> jsnum" where
  \<comment> \<open>\<open>entries.reduce((sum, entry) => sum + (entry.debit_amount || 0), 0)\<close>\<close>
  "total_debits entries =
     foldl (\<lambda>sum entry. fadd sum (js_amount (ei_debit_amount entry))) (Fin 0) entries"

definition total_credits :: "entry_in list \<Rightarrow> jsnum" where
  \<comment> \<open>\<open>entries.reduce((sum, entry) => sum + (entry.credit_amount || 0), 0)\<close>\<close>
  "total_credits entries =
     foldl (\<lambda>sum entry. fadd sum (js_amount (ei_credit_amount entry))) (Fin 0) entries"

definition tolerance :: jsnum where
  \<comment> \<open>the literal \<open>0.01\<close>\<close>
  "tolerance = round_double (1 / 100)"

definition imbalance_response :: response where
  "imbalance_response =
     Json 400 (JObj [(''msg'', JStr ''Debits and credits must be equal for double entry'')])"

definition post_transaction :: "env \<Rightarrow> post_request \<Rightarrow> db \<Rightarrow> response \<times> db" where
  "post_transaction ev rq d =
     (let errors = validation_errors rq in
      if errors \<noteq> [] then (Json 400 (JObj [(''errors'', JArr (map JStr errors))]), d)
      else if missing_token (rq_token rq) then (unauthorized, d)
      else
        let dt = (case rq_date rq of None \<Rightarrow> today ev | Some x \<Rightarrow> x);
            entries = rq_entries rq;
            totalDebits = total_debits entries;
            totalCredits = total_credits entries
        in
        if js_gt (js_abs (fsub totalDebits totalCredits)) tolerance
        then (imbalance_response, d)
        else
          let transactionNumber = transaction_number ev in
          (case insert_transaction d transactionNumber (rq_reference_number rq)
                  (rq_transaction_type rq) (rq_description rq) dt of
             (None, d1) \<Rightarrow> (server_error, d1)
           | (Some transactionId, d1) \<Rightarrow>
               (case insert_entries d1 transactionId entries of
                  (False, d2) \<Rightarrow> (server_error, d2)
                | (True, d2) \<Rightarrow>
                    (Json 200 (JObj [(''transaction_id'', JNum (of_int transactionId)),
                                     (''transaction_number'', JStr transactionNumber),
                                     (''message'', JStr ''Transaction created successfully'')]),
                     d2))))"

section \<open>GET /ledger/:accountId\<close>

definition date_key :: "int option \<Rightarrow> nat \<times> int" where
  \<comment> \<open>ascending \<open>ORDER BY\<close> puts NULL dates last\<close>
  "date_key dt = (case dt of None \<Rightarrow> (1, 0) | Some x \<Rightarrow> (0, x))"

definition running_balance :: "db \<Rightarrow> int \<Rightarrow> entry \<Rightarrow> rat option" where
  \<comment> \<open>the correlated subquery: \<open>WHERE account_id = $1 AND id <= te.id\<close>\<close>
  "running_balance d accountId te =
     (let rows = filter (\<lambda>x. e_id x \<le> e_id te) (entries_of d accountId) in
      sql_minus (sql_sum (map (\<lambda>x. Some (coalesce0 (e_debit_amount x))) rows))
                (sql_sum (map (\<lambda>x. Some (coalesce0 (e_credit_amount x))) rows)))"

definition jnum_opt :: "rat option \<Rightarrow> json" where
  "jnum_opt x = (case x of None \<Rightarrow> JNull | Some v \<Rightarrow> JNum v)"

definition jstr_opt :: "string option \<Rightarrow> json" where
  "jstr_opt x = (case x of None \<Rightarrow> JNull | Some v \<Rightarrow> JStr v)"

definition ledger_row :: "db \<Rightarrow> int \<Rightarrow> entry \<times> txn \<Rightarrow> json" where
  "ledger_row d accountId r =
     (case r of (te, t) \<Rightarrow>
        JObj [(''id'', JNum (of_int (e_id te))),
              (''transaction_id'', jnum_opt (map_option of_int (e_transaction_id te))),
              (''transaction_number'', JStr (t_transaction_number t)),
              (''transaction_description'', JStr (t_description t)),
              (''date'', jnum_opt (map_option of_int (t_date t))),
              (''debit_amount'', jnum_opt (e_debit_amount te)),
              (''credit_amount'', jnum_opt (e_credit_amount te)),
              (''entry_description'', jstr_opt (e_description te)),
              (''running_balance'', jnum_opt (running_balance d accountId te))])"

definition ledger_query :: "db \<Rightarrow> int \<Rightarrow> json list" where
  "ledger_query d accountId =
     (let joined = concat (map (\<lambda>te. map (\<lambda>t. (te, t))
                      (filter (\<lambda>t. e_transaction_id te = Some (t_id t)) (transactions d)))
                    (entries_of d accountId));
          ordered = sort_key (\<lambda>(te, t). (date_key (t_date t), e_id te)) joined
      in map (ledger_row d accountId) ordered)"

definition get_ledger :: "string option \<Rightarrow> int \<Rightarrow> db \<Rightarrow> response" where
  "get_ledger tok accountId d =
     (if missing_token tok then unauthorized
      else Json 200 (JArr (ledger_query d accountId)))"

section \<open>Joins and grouping for the reports\<close>

definition left_join_entries :: "db \<Rightarrow> account \<Rightarrow> entry option list" where
  \<comment> \<open>\<open>accounts a LEFT JOIN transaction_entries te ON a.id = te.account_id\<close>, for one
      account row: its entries, or one all-NULL row when it has none\<close>
  "left_join_entries d a =
     (let es = entries_of d (a_id a) in if es = [] then [None] else map Some es)"

definition joined2 :: "db \<Rightarrow> (account \<times> entry option) list" where
  \<comment> \<open>\<open>accounts a LEFT JOIN transaction_entries te ON a.id = te.account_id\<close>\<close>
  "joined2 d = concat (map (\<lambda>a. map (\<lambda>te. (a, te)) (left_join_entries d a)) (accounts d))"

fun group_by :: "('r \<Rightarrow> 'k) \<Rightarrow> 'r list \<Rightarrow> ('k \<times> 'r list) list" where
  \<comment> \<open>\<open>GROUP BY\<close>: one group per distinct key, in order of first appearance\<close>
  "group_by key [] = []"
| "group_by key (r # rs) =
     (key r, r # filter (\<lambda>x. key x = key r) rs) #
     group_by key (filter (\<lambda>x. key x \<noteq> key r) rs)"

definition sum_col :: "(entry \<Rightarrow> rat option) \<Rightarrow> entry option list \<Rightarrow> rat" where
  \<comment> \<open>\<open>COALESCE(SUM(te.col), 0)\<close> over the rows of a group\<close>
  "sum_col col tes = coalesce0 (sql_sum (map (\<lambda>te. Option.bind te col) tes))"

definition sum_col0 :: "(entry \<Rightarrow> rat option) \<Rightarrow> entry option list \<Rightarrow> rat" where
  \<comment> \<open>\<open>COALESCE(SUM(COALESCE(te.col, 0)), 0)\<close> over the rows of a group\<close>
  "sum_col0 col tes =
     coalesce0 (sql_sum (map (\<lambda>te. Some (coalesce0 (Option.bind te col))) tes))"

section \<open>GET /trial-balance\<close>

record tb_row =
  tb_id :: int
  tb_account_number :: string
  tb_account_name :: string
  tb_account_type :: account_type
  tb_total_debits :: rat
  tb_total_credits :: rat
  tb_balance :: rat

definition trial_balance_query :: "db \<Rightarrow> tb_row list" where
  \<comment> \<open>the rows come in the order of \<open>account_number\<close>, compared byte by byte\<close>
  "trial_balance_query d =
     (let groups = group_by (\<lambda>(a, te). (a_id a, a_account_number a, a_account_name a,
                                          a_account_type a)) (joined2 d);
          rows = map (\<lambda>(k, g).
                   (case k of (aid, num, name, ty) \<Rightarrow>
                      \<lparr>tb_id = aid, tb_account_number = num, tb_account_name = name,
                       tb_account_type = ty,
                       tb_total_debits = sum_col0 e_debit_amount (map snd g),
                       tb_total_credits = sum_col0 e_credit_amount (map snd g),
                       tb_balance = sum_col0 e_credit_amount (map snd g)
                                    - sum_col0 e_debit_amount (map snd g)\<rparr>)) groups
      in sort_key tb_account_number rows)"

definition json_account_type :: "account_type \<Rightarrow> json" where
  "json_account_type ty =
     JStr (case ty of Asset \<Rightarrow> ''asset'' | Liability \<Rightarrow> ''liability'' | Equity \<Rightarrow> ''equity''
           | Revenue \<Rightarrow> ''revenue'' | Expense \<Rightarrow> ''expense'')"

definition json_tb_row :: "tb_row \<Rightarrow> json" where
  "json_tb_row r =
     JObj [(''id'', JNum (of_int (tb_id r))),
           (''account_number'', JStr (tb_account_number r)),
           (''account_name'', JStr (tb_account_name r)),
           (''account_type'', json_account_type (tb_account_type r)),
           (''total_debits'', JNum (tb_total_debits r)),
           (''total_credits'', JNum (tb_total_credits r)),
           (''balance'', JNum (tb_balance r))]"

definition trial_balance :: "string option \<Rightarrow> db \<Rightarrow> response" where
  "trial_balance tok d =
     (if missing_token tok then unauthorized
      else
        let rows = trial_balance_query d;
            totalDebits =
              foldl (\<lambda>sum row. fadd sum (parseFloat (tb_total_debits row))) (Fin 0) rows;
            totalCredits =
              foldl (\<lambda>sum row. fadd sum (parseFloat (tb_total_credits row))) (Fin 0) rows;
            netDifference = fsub totalCredits totalDebits
        in Json 200 (JObj [(''accounts'', JArr (map json_tb_row rows)),
                           (''totals'', JObj [(''total_debits'', jsnum_json totalDebits),
                                              (''total_credits'', jsnum_json totalCredits),
                                              (''net_difference'', jsnum_json netDifference)])]))"

section \<open>GET /income-statement\<close>

text \<open>
  The two statements of this handler are put together from a template, a condition on
  the date and a second template.  The first template ends inside the string constant
  of the account type: its closing quote is missing.  The text is kept as the handler
  builds it (runs of white space written as one blank), and the database's answer to a
  statement text is an argument of the handler, \<open>None\<close> when \<open>db.query\<close> throws.
\<close>

definition truthy :: "int option \<Rightarrow> bool" where
  \<comment> \<open>a query parameter counts when it is present and not empty\<close>
  "truthy x = (x \<noteq> None)"

definition date_condition :: "int option \<Rightarrow> int option \<Rightarrow> string" where
  \<comment> \<open>\<open>(start_date || end_date ? ' AND t.date BETWEEN $1 AND $2' : '')\<close>\<close>
  "date_condition start_date end_date =
     (if truthy start_date \<or> truthy end_date then '' AND t.date BETWEEN $1 AND $2'' else [])"

definition revenueQuery :: "int option \<Rightarrow> int option \<Rightarrow> string" where
  "revenueQuery start_date end_date =
     '' SELECT a.account_name, COALESCE(SUM(te.credit_amount), 0) - COALESCE(SUM(te.debit_amount), 0) as amount FROM accounts a LEFT JOIN transaction_entries te ON a.id = te.account_id LEFT JOIN transactions t ON te.transaction_id = t.id WHERE a.account_type = 'revenue''
     @ date_condition start_date end_date
     @ '' GROUP BY a.id, a.account_name ''"

definition expenseQuery :: "int option \<Rightarrow> int option \<Rightarrow> string" where
  "expenseQuery start_date end_date =
     '' SELECT a.account_name, COALESCE(SUM(te.debit_amount), 0) - COALESCE(SUM(te.credit_amount), 0) as amount FROM accounts a LEFT JOIN transaction_entries te ON a.id = te.account_id LEFT JOIN transactions t ON te.transaction_id = t.id WHERE a.account_type = 'expense''
     @ date_condition start_date end_date
     @ '' GROUP BY a.id, a.account_name ''"

definition date_params :: "int option \<Rightarrow> int option \<Rightarrow> int list" where
  \<comment> \<open>\<open>start_date && end_date ? [start_date, end_date] : []\<close>\<close>
  "date_params start_date end_date =
     (case start_date of
        None \<Rightarrow> []
      | Some s \<Rightarrow> (case end_date of None \<Rightarrow> [] | Some e \<Rightarrow> [s, e]))"

fun open_literal :: "bool \<Rightarrow> string \<Rightarrow> bool" where
  \<comment> \<open>reading a statement that has no comment, quoted identifier or dollar quote: a
      single quote opens a string constant and the next one closes it (a doubled quote
      inside a constant closes and reopens it); the result says whether the text ends
      inside a constant\<close>
  "open_literal inside [] = inside"
| "open_literal inside (c # cs) =
     open_literal (if c = CHR 0x27 then \<not> inside else inside) cs"

definition unterminated_literal :: "string \<Rightarrow> bool" where
  "unterminated_literal sql = open_literal False sql"

definition rejects_unterminated ::
  "(string \<Rightarrow> int list \<Rightarrow> (string \<times> rat) list option) \<Rightarrow> bool" where
  \<comment> \<open>PostgreSQL refuses a statement that ends inside a string constant
      (``unterminated quoted string''), and \<open>db.query\<close> throws\<close>
  "rejects_unterminated query =
     (\<forall>sql params. unterminated_literal sql \<longrightarrow> query sql params = None)"

definition json_amount_row :: "string \<times> rat \<Rightarrow> json" where
  "json_amount_row r = JObj [(''account_name'', JStr (fst r)), (''amount'', JNum (snd r))]"

definition income_statement ::
  "(string \<Rightarrow> int list \<Rightarrow> (string \<times> rat) list option) \<Rightarrow>
   string option \<Rightarrow> int option \<Rightarrow> int option \<Rightarrow> response" where
  \<comment> \<open>\<open>query\<close> is \<open>db.query\<close> on the current database; \<open>start_date\<close> and \<open>end_date\<close> are
      \<open>None\<close> when absent or empty\<close>
  "income_statement query tok start_date end_date =
     (if missing_token tok then unauthorized
      else
        let params = date_params start_date end_date in
        (case query (revenueQuery start_date end_date) params of
           None \<Rightarrow> server_error
         | Some revenueRows \<Rightarrow>
             (case query (expenseQuery start_date end_date) params of
                None \<Rightarrow> server_error
              | Some expenseRows \<Rightarrow>
                  let totalRevenue =
                        foldl (\<lambda>sum row. fadd sum (parseFloat (snd row))) (Fin 0) revenueRows;
                      totalExpenses =
                        foldl (\<lambda>sum row. fadd sum (parseFloat (snd row))) (Fin 0) expenseRows;
                      netIncome = fsub totalRevenue totalExpenses
                  in Json 200 (JObj [(''revenue'', JArr (map json_amount_row revenueRows)),
                                     (''expenses'', JArr (map json_amount_row expenseRows)),
                                     (''totals'',
                                      JObj [(''total_revenue'', jsnum_json totalRevenue),
                                            (''total_expenses'', jsnum_json totalExpenses),
                                            (''net_income'', jsnum_json netIncome)])]))))"

section \<open>GET /balance-sheet\<close>

definition assets_query :: "db \<Rightarrow> (string \<times> rat) list" where
  \<comment> \<open>no \<open>ORDER BY\<close>: the groups are taken in the order of the accounts table\<close>
  "assets_query d =
     (let rows = filter (\<lambda>(a, te). a_account_type a = Asset) (joined2 d);
          groups = group_by (\<lambda>(a, te). (a_id a, a_account_name a)) rows
      in map (\<lambda>(k, g). (snd k, sum_col e_debit_amount (map snd g)
                                - sum_col e_credit_amount (map snd g))) groups)"

definition liabilities_query :: "db \<Rightarrow> (string \<times> rat) list" where
  "liabilities_query d =
     (let rows = filter (\<lambda>(a, te). a_account_type a = Liability) (joined2 d);
          groups = group_by (\<lambda>(a, te). (a_id a, a_account_name a)) rows
      in map (\<lambda>(k, g). (snd k, sum_col e_credit_amount (map snd g)
                                - sum_col e_debit_amount (map snd g))) groups)"

definition equity_query :: "db \<Rightarrow> (string \<times> rat) list" where
  "equity_query d =
     (let rows = filter (\<lambda>(a, te). a_account_type a = Equity) (joined2 d);
          groups = group_by (\<lambda>(a, te). (a_id a, a_account_name a)) rows
      in map (\<lambda>(k, g). (snd k, sum_col e_credit_amount (map snd g)
                                - sum_col e_debit_amount (map snd g))) groups)"

definition balance_sheet :: "string option \<Rightarrow> db \<Rightarrow> response" where
  "balance_sheet tok d =
     (if missing_token tok then unauthorized
      else
        let assetsRows = assets_query d;
            liabilitiesRows = liabilities_query d;
            equityRows = equity_query d;
            totalAssets =
              foldl (\<lambda>sum row. fadd sum (parseFloat (snd row))) (Fin 0) assetsRows;
            totalLiabilities =
              foldl (\<lambda>sum row. fadd sum (parseFloat (snd row))) (Fin 0) liabilitiesRows;
            totalEquity =
              foldl (\<lambda>sum row. fadd sum (parseFloat (snd row))) (Fin 0) equityRows;
            totalLiabilitiesAndEquity = fadd totalLiabilities totalEquity
        in Json 200 (JObj [(''assets'', JArr (map json_amount_row assetsRows)),
                           (''liabilities'', JArr (map json_amount_row liabilitiesRows)),
                           (''equity'', JArr (map json_amount_row equityRows)),
                           (''totals'',
                            JObj [(''total_assets'', jsnum_json totalAssets),
                                  (''total_liabilities'', jsnum_json totalLiabilities),
                                  (''total_equity'', jsnum_json totalEquity),
                                  (''total_liabilities_and_equity'',
                                   jsnum_json totalLiabilitiesAndEquity)])]))"

section \<open>Quantities of the specification\<close>

text \<open>
  What the claims speak of, written from their wording: the kinds of response, the
  one-sidedness of an entry, the per-account debit and credit totals, the normal-balance
  amount of an account, and the rows that the two reports owe to an account.  The
  handlers above are compared with these.
\<close>

definition is_validation_error :: "response \<Rightarrow> bool" where
  \<comment> \<open>the response of the \<open>validationResult\<close> branch: status 400 with an \<open>errors\<close> field\<close>
  "is_validation_error r =
     (case r of Json status j \<Rightarrow> status = 400 \<and> field ''errors'' j \<noteq> None
      | Send status s \<Rightarrow> False)"

definition conflict_response :: response where
  \<comment> \<open>the refusal of DELETE: status 400 with its message\<close>
  "conflict_response =
     Json 400 (JObj [(''msg'', JStr ''Cannot delete account with existing transactions'')])"

definition entry_columns :: "entry \<Rightarrow> int option \<times> int option \<times> rat option \<times> rat option" where
  \<comment> \<open>the columns of an entry row that the claims speak of\<close>
  "entry_columns e = (e_transaction_id e, e_account_id e, e_debit_amount e, e_credit_amount e)"

definition spec_exactly_one_nonzero :: "entry_in \<Rightarrow> bool" where
  \<comment> \<open>the specification's wording: exactly one of debit and credit is non-zero\<close>
  "spec_exactly_one_nonzero e =
     ((or0 (ei_debit_amount e) \<noteq> 0) \<noteq> (or0 (ei_credit_amount e) \<noteq> 0))"

definition spec_account_debits :: "db \<Rightarrow> account \<Rightarrow> rat" where
  \<comment> \<open>the specification's per-account debit total: the debits of the entries that
      reference the account\<close>
  "spec_account_debits d a =
     sum_list (map (\<lambda>e. coalesce0 (e_debit_amount e))
                   (filter (\<lambda>e. e_account_id e = Some (a_id a)) (transaction_entries d)))"

definition spec_account_credits :: "db \<Rightarrow> account \<Rightarrow> rat" where
  \<comment> \<open>the specification's per-account credit total\<close>
  "spec_account_credits d a =
     sum_list (map (\<lambda>e. coalesce0 (e_credit_amount e))
                   (filter (\<lambda>e. e_account_id e = Some (a_id a)) (transaction_entries d)))"

definition spec_debit_amount :: "db \<Rightarrow> account \<Rightarrow> rat" where
  \<comment> \<open>the specification's amount of a debit-normal account: debits minus credits\<close>
  "spec_debit_amount d a = spec_account_debits d a - spec_account_credits d a"

definition spec_credit_amount :: "db \<Rightarrow> account \<Rightarrow> rat" where
  \<comment> \<open>the specification's amount of a credit-normal account: credits minus debits\<close>
  "spec_credit_amount d a = spec_account_credits d a - spec_account_debits d a"

definition accounts_of_type :: "db \<Rightarrow> account_type \<Rightarrow> account list" where
  "accounts_of_type d ty = filter (\<lambda>a. a_account_type a = ty) (accounts d)"

definition by_account_number :: "db \<Rightarrow> account list" where
  \<comment> \<open>the accounts in the order of their numbers\<close>
  "by_account_number d = sort_key a_account_number (accounts d)"

definition tb_row_of :: "db \<Rightarrow> account \<Rightarrow> tb_row" where
  \<comment> \<open>the trial-balance row of an account: its columns and its entry totals\<close>
  "tb_row_of d a =
     \<lparr>tb_id = a_id a, tb_account_number = a_account_number a,
      tb_account_name = a_account_name a, tb_account_type = a_account_type a,
      tb_total_debits = spec_account_debits d a,
      tb_total_credits = spec_account_credits d a,
      tb_balance = spec_account_credits d a - spec_account_debits d a\<rparr>"

definition amount_row_of :: "(db \<Rightarrow> account \<Rightarrow> rat) \<Rightarrow> db \<Rightarrow> account \<Rightarrow> string \<times> rat" where
  \<comment> \<open>the balance-sheet row of an account, for one of the two amounts above\<close>
  "amount_row_of amount d a = (a_account_name a, amount d a)"

section \<open>Scenario data\<close>

text \<open>
  The chart of accounts that the schema installs, an empty journal, and requests posted
  through \<open>post_transaction\<close>: the cash sale of Scenario A (debit Cash 500, credit
  Sales Revenue 500), its variants, two receipts of which the later one is dated
  earlier, and two receipts of 0.10 and 0.20.
\<close>

definition default_accounts :: "account list" where
  "default_accounts =
     [\<lparr>a_id = 1, a_account_number = ''1000'', a_account_name = ''Cash'',
       a_account_type = Asset, a_parent_account_id = None\<rparr>,
      \<lparr>a_id = 2, a_account_number = ''1100'', a_account_name = ''Bank'',
       a_account_type = Asset, a_parent_account_id = None\<rparr>,
      \<lparr>a_id = 3, a_account_number = ''1200'', a_account_name = ''Accounts Receivable'',
       a_account_type = Asset, a_parent_account_id = None\<rparr>,
      \<lparr>a_id = 4, a_account_number = ''2000'', a_account_name = ''Accounts Payable'',
       a_account_type = Liability, a_parent_account_id = None\<rparr>,
      \<lparr>a_id = 5, a_account_number = ''3000'', a_account_name = ''Owner's Equity'',
       a_account_type = Equity, a_parent_account_id = None\<rparr>,
      \<lparr>a_id = 6, a_account_number = ''4000'', a_account_name = ''Sales Revenue'',
       a_account_type = Revenue, a_parent_account_id = None\<rparr>,
      \<lparr>a_id = 7, a_account_number = ''5000'', a_account_name = ''Cost of Goods Sold'',
       a_account_type = Expense, a_parent_account_id = None\<rparr>,
      \<lparr>a_id = 8, a_account_number = ''5100'', a_account_name = ''Shipping Expenses'',
       a_account_type = Expense, a_parent_account_id = None\<rparr>,
      \<lparr>a_id = 9, a_account_number = ''5200'', a_account_name = ''Office Supplies'',
       a_account_type = Expense, a_parent_account_id = None\<rparr>]"

definition db0 :: db where
  "db0 = \<lparr>accounts = default_accounts, transactions = [], transaction_entries = [],
          transactions_id_seq = 1, transaction_entries_id_seq = 1\<rparr>"

definition env0 :: env where
  "env0 = \<lparr>now = 1700000000000, random = 1 / 2, today = 19675\<rparr>"

definition scenario_A :: post_request where
  "scenario_A =
     \<lparr>rq_token = Some ''tok'', rq_transaction_type = ''crv'', rq_description = ''Cash sale'',
      rq_date = None,
      rq_entries =
        [\<lparr>ei_account_id = Some 1, ei_debit_amount = Some 500, ei_credit_amount = None,
          ei_description = None\<rparr>,
         \<lparr>ei_account_id = Some 6, ei_debit_amount = None, ei_credit_amount = Some 500,
          ei_description = None\<rparr>],
      rq_reference_number = None\<rparr>"

definition db_A :: db where
  "db_A = snd (post_transaction env0 scenario_A db0)"


definition scenario_C :: post_request where
  \<comment> \<open>Scenario C: a single entry\<close>
  "scenario_C =
     scenario_A\<lparr>rq_entries :=
        [\<lparr>ei_account_id = Some 1, ei_debit_amount = Some 500, ei_credit_amount = None,
          ei_description = None\<rparr>]\<rparr>"

definition two_sided_request :: post_request where
  \<comment> \<open>one entry with both amounts set, one with both amounts zero\<close>
  "two_sided_request =
     scenario_A\<lparr>rq_entries :=
        [\<lparr>ei_account_id = Some 1, ei_debit_amount = Some 500, ei_credit_amount = Some 500,
          ei_description = None\<rparr>,
         \<lparr>ei_account_id = Some 6, ei_debit_amount = Some 0, ei_credit_amount = None,
          ei_description = None\<rparr>]\<rparr>"

definition dangling_request :: post_request where
  \<comment> \<open>balanced, but the second entry names an account that does not exist\<close>
  "dangling_request =
     scenario_A\<lparr>rq_entries :=
        [\<lparr>ei_account_id = Some 1, ei_debit_amount = Some 500, ei_credit_amount = None,
          ei_description = None\<rparr>,
         \<lparr>ei_account_id = Some 99, ei_debit_amount = None, ei_credit_amount = Some 500,
          ei_description = None\<rparr>]\<rparr>"

definition db_tree :: db where
  \<comment> \<open>the default chart with a sub-account of Cash, and an empty journal\<close>
  "db_tree =
     db0\<lparr>accounts := default_accounts @
        [\<lparr>a_id = 10, a_account_number = ''1010'', a_account_name = ''Petty Cash'',
          a_account_type = Asset, a_parent_account_id = Some 1\<rparr>]\<rparr>"

definition backdated_first :: post_request where
  \<comment> \<open>a receipt of 100 dated day 19680\<close>
  "backdated_first =
     scenario_A\<lparr>rq_date := Some 19680,
       rq_entries :=
        [\<lparr>ei_account_id = Some 1, ei_debit_amount = Some 100, ei_credit_amount = None,
          ei_description = None\<rparr>,
         \<lparr>ei_account_id = Some 6, ei_debit_amount = None, ei_credit_amount = Some 100,
          ei_description = None\<rparr>]\<rparr>"

definition backdated_second :: post_request where
  \<comment> \<open>a receipt of 50 posted afterwards but dated earlier, day 19670\<close>
  "backdated_second =
     scenario_A\<lparr>rq_date := Some 19670,
       rq_entries :=
        [\<lparr>ei_account_id = Some 1, ei_debit_amount = Some 50, ei_credit_amount = None,
          ei_description = None\<rparr>,
         \<lparr>ei_account_id = Some 6, ei_debit_amount = None, ei_credit_amount = Some 50,
          ei_description = None\<rparr>]\<rparr>"

definition env1 :: env where
  "env1 = \<lparr>now = 1700000000001, random = 1 / 2, today = 19675\<rparr>"

definition db_backdated :: db where
  "db_backdated =
     snd (post_transaction env1 backdated_second
            (snd (post_transaction env0 backdated_first db0)))"


definition tenth_first :: post_request where
  \<comment> \<open>a cash receipt of 0.10\<close>
  "tenth_first =
     scenario_A\<lparr>rq_entries :=
        [\<lparr>ei_account_id = Some 1, ei_debit_amount = Some (1 / 10), ei_credit_amount = None,
          ei_description = None\<rparr>,
         \<lparr>ei_account_id = Some 6, ei_debit_amount = None, ei_credit_amount = Some (1 / 10),
          ei_description = None\<rparr>]\<rparr>"

definition tenth_second :: post_request where
  \<comment> \<open>a bank receipt of 0.20\<close>
  "tenth_second =
     scenario_A\<lparr>rq_entries :=
        [\<lparr>ei_account_id = Some 2, ei_debit_amount = Some (2 / 10), ei_credit_amount = None,
          ei_description = None\<rparr>,
         \<lparr>ei_account_id = Some 6, ei_debit_amount = None, ei_credit_amount = Some (2 / 10),
          ei_description = None\<rparr>]\<rparr>"

definition db_tenths :: db where
  "db_tenths =
     snd (post_transaction env1 tenth_second
            (snd (post_transaction env0 tenth_first db0)))"

definition lexing_db :: "string \<Rightarrow> int list \<Rightarrow> (string \<times> rat) list option" where
  \<comment> \<open>a database that refuses a statement ending inside a string constant and finds no
      row for any other\<close>
  "lexing_db sql params = (if unterminated_literal sql then None else Some [])"


section \<open>Evaluating the scenario\<close>

lemma floor_rat_numeral_div [simp]:
  "\<lfloor>(numeral a :: rat) / numeral b\<rfloor> = numeral a div numeral b"
  using floor_divide_of_int_eq [of "numeral a" "numeral b", where ?'a = rat] by simp

lemma round_double_eval:
  assumes "x \<noteq> 0" and "exponent \<bar>x\<bar> = e" and "max (e - 52) (- 1074) = q"
    and "round_to q \<bar>x\<bar> = r" and "r < 2 ^ 1024" and "y = sgn x * r"
  shows "round_double x = Fin y"
  using assms by (simp add: round_double_def quantum_def Let_def)

lemmas rd_eval = exponent_def bit_length.simps pow2_def round_to_def round_half_even_def Let_def

lemma round_double_0 [simp]: "round_double 0 = Fin 0"
  by (simp add: round_double_def)

lemma round_double_500 [simp]: "round_double (500) = Fin (500)"
  by (rule round_double_eval [where e = "8" and q = "- 44" and r = "500"])
     (simp_all add: rd_eval)

lemma round_double_400 [simp]: "round_double (400) = Fin (400)"
  by (rule round_double_eval [where e = "8" and q = "- 44" and r = "400"])
     (simp_all add: rd_eval)

lemma round_double_100 [simp]: "round_double (100) = Fin (100)"
  by (rule round_double_eval [where e = "6" and q = "- 46" and r = "100"])
     (simp_all add: rd_eval)

lemma round_double_50 [simp]: "round_double (50) = Fin (50)"
  by (rule round_double_eval [where e = "5" and q = "- 47" and r = "50"])
     (simp_all add: rd_eval)

lemma round_double_hundredth [simp]: "round_double (1 / 100) = Fin (5764607523034235 / 576460752303423488)"
  by (rule round_double_eval [where e = "- 7" and q = "- 59" and r = "5764607523034235 / 576460752303423488"])
     (simp_all add: rd_eval)

lemma round_double_4_hundredths [simp]: "round_double (1 / 25) = Fin (5764607523034235 / 144115188075855872)"
  by (rule round_double_eval [where e = "- 5" and q = "- 57" and r = "5764607523034235 / 144115188075855872"])
     (simp_all add: rd_eval)

lemma round_double_3_hundredths [simp]: "round_double (3 / 100) = Fin (1080863910568919 / 36028797018963968)"
  by (rule round_double_eval [where e = "- 6" and q = "- 58" and r = "1080863910568919 / 36028797018963968"])
     (simp_all add: rd_eval)

lemma round_double_d04 [simp]: "round_double (5764607523034235 / 144115188075855872) = Fin (5764607523034235 / 144115188075855872)"
  by (rule round_double_eval [where e = "- 5" and q = "- 57" and r = "5764607523034235 / 144115188075855872"])
     (simp_all add: rd_eval)

lemma round_double_d03 [simp]: "round_double (1080863910568919 / 36028797018963968) = Fin (1080863910568919 / 36028797018963968)"
  by (rule round_double_eval [where e = "- 6" and q = "- 58" and r = "1080863910568919 / 36028797018963968"])
     (simp_all add: rd_eval)

lemma round_double_d04_minus_d03 [simp]: "round_double (1441151880758559 / 144115188075855872) = Fin (1441151880758559 / 144115188075855872)"
  by (rule round_double_eval [where e = "- 7" and q = "- 59" and r = "1441151880758559 / 144115188075855872"])
     (simp_all add: rd_eval)

lemma round_double_tenth [simp]: "round_double (1 / 10) = Fin (3602879701896397 / 36028797018963968)"
  by (rule round_double_eval [where e = "- 4" and q = "- 56" and r = "3602879701896397 / 36028797018963968"])
     (simp_all add: rd_eval)

lemma round_double_2_tenths [simp]: "round_double (1 / 5) = Fin (3602879701896397 / 18014398509481984)"
  by (rule round_double_eval [where e = "- 3" and q = "- 55" and r = "3602879701896397 / 18014398509481984"])
     (simp_all add: rd_eval)

lemma round_double_3_tenths [simp]: "round_double (3 / 10) = Fin (5404319552844595 / 18014398509481984)"
  by (rule round_double_eval [where e = "- 2" and q = "- 54" and r = "5404319552844595 / 18014398509481984"])
     (simp_all add: rd_eval)

lemma round_double_d01 [simp]: "round_double (3602879701896397 / 36028797018963968) = Fin (3602879701896397 / 36028797018963968)"
  by (rule round_double_eval [where e = "- 4" and q = "- 56" and r = "3602879701896397 / 36028797018963968"])
     (simp_all add: rd_eval)

lemma round_double_d02 [simp]: "round_double (3602879701896397 / 18014398509481984) = Fin (3602879701896397 / 18014398509481984)"
  by (rule round_double_eval [where e = "- 3" and q = "- 55" and r = "3602879701896397 / 18014398509481984"])
     (simp_all add: rd_eval)

lemma round_double_d03t [simp]: "round_double (5404319552844595 / 18014398509481984) = Fin (5404319552844595 / 18014398509481984)"
  by (rule round_double_eval [where e = "- 2" and q = "- 54" and r = "5404319552844595 / 18014398509481984"])
     (simp_all add: rd_eval)

lemma round_double_d01_plus_d02 [simp]: "round_double (10808639105689191 / 36028797018963968) = Fin (1351079888211149 / 4503599627370496)"
  by (rule round_double_eval [where e = "- 2" and q = "- 54" and r = "1351079888211149 / 4503599627370496"])
     (simp_all add: rd_eval)

lemma round_double_d0300004 [simp]: "round_double (1351079888211149 / 4503599627370496) = Fin (1351079888211149 / 4503599627370496)"
  by (rule round_double_eval [where e = "- 2" and q = "- 54" and r = "1351079888211149 / 4503599627370496"])
     (simp_all add: rd_eval)

lemma round_double_net [simp]: "round_double (- (1 / 18014398509481984)) = Fin (- (1 / 18014398509481984))"
  by (rule round_double_eval [where e = "- 54" and q = "- 106" and r = "1 / 18014398509481984"])
     (simp_all add: rd_eval)

lemma round2_0 [simp]: "round2 0 = 0"
  by (simp add: round2_def)

lemma round2_500 [simp]: "round2 500 = 500"
  by (simp add: round2_def)

lemma show_nat_now: "show_nat 1700000000000 = ''1700000000000''"
  by (simp add: show_nat.simps)

lemma show_nat_5500: "show_nat 5500 = ''5500''"
  by (simp add: show_nat.simps)

lemma transaction_number_env0: "transaction_number env0 = ''TXN17000000000005500''"
  by (simp add: transaction_number_def env0_def show_nat_now show_nat_5500)

lemma today_env0: "today env0 = 19675"
  by (simp add: env0_def)

lemmas post_eval = post_transaction_def validation_errors_def missing_token_def or0_def
  js_amount_def total_debits_def total_credits_def tolerance_def fsub_def
  transaction_number_env0 today_env0 insert_transaction_def transaction_types_def
  insert_entry_def default_accounts_def Let_def

lemma post_A:
  "post_transaction env0 scenario_A db0 =
     (Json 200 (JObj [(''transaction_id'', JNum 1),
                      (''transaction_number'', JStr ''TXN17000000000005500''),
                      (''message'', JStr ''Transaction created successfully'')]),
      \<lparr>accounts = default_accounts,
       transactions =
         [\<lparr>t_id = 1, t_transaction_number = ''TXN17000000000005500'',
           t_reference_number = None, t_transaction_type = ''crv'',
           t_description = ''Cash sale'', t_date = Some 19675, t_status = ''pending''\<rparr>],
       transaction_entries =
         [\<lparr>e_id = 1, e_transaction_id = Some 1, e_account_id = Some 1,
           e_debit_amount = Some 500, e_credit_amount = Some 0, e_description = None\<rparr>,
          \<lparr>e_id = 2, e_transaction_id = Some 1, e_account_id = Some 6,
           e_debit_amount = Some 0, e_credit_amount = Some 500, e_description = None\<rparr>],
       transactions_id_seq = 2, transaction_entries_id_seq = 3\<rparr>)"
  by (simp add: scenario_A_def db0_def post_eval)

lemmas db_A_eq = db_A_def [unfolded post_A snd_conv]


lemma round2_100 [simp]: "round2 100 = 100"
  by (simp add: round2_def)

lemma round2_50 [simp]: "round2 50 = 50"
  by (simp add: round2_def)

lemma round2_tenth [simp]: "round2 (1 / 10) = 1 / 10"
  by (simp add: round2_def)

lemma round2_fifth [simp]: "round2 (1 / 5) = 1 / 5"
  by (simp add: round2_def)

lemma transaction_number_env1: "transaction_number env1 = ''TXN17000000000015500''"
  by (simp add: transaction_number_def env1_def show_nat.simps)

lemma today_env1: "today env1 = 19675"
  by (simp add: env1_def)

lemma db_backdated_eq:
  "db_backdated =
      \<lparr>accounts = default_accounts,
       transactions =
         [\<lparr>t_id = 1, t_transaction_number = ''TXN17000000000005500'',
           t_reference_number = None, t_transaction_type = ''crv'',
           t_description = ''Cash sale'', t_date = Some 19680, t_status = ''pending''\<rparr>,
          \<lparr>t_id = 2, t_transaction_number = ''TXN17000000000015500'',
           t_reference_number = None, t_transaction_type = ''crv'',
           t_description = ''Cash sale'', t_date = Some 19670, t_status = ''pending''\<rparr>],
       transaction_entries =
         [\<lparr>e_id = 1, e_transaction_id = Some 1, e_account_id = Some 1,
           e_debit_amount = Some 100, e_credit_amount = Some 0, e_description = None\<rparr>,
          \<lparr>e_id = 2, e_transaction_id = Some 1, e_account_id = Some 6,
           e_debit_amount = Some 0, e_credit_amount = Some 100, e_description = None\<rparr>,
          \<lparr>e_id = 3, e_transaction_id = Some 2, e_account_id = Some 1,
           e_debit_amount = Some 50, e_credit_amount = Some 0, e_description = None\<rparr>,
          \<lparr>e_id = 4, e_transaction_id = Some 2, e_account_id = Some 6,
           e_debit_amount = Some 0, e_credit_amount = Some 50, e_description = None\<rparr>],
       transactions_id_seq = 3, transaction_entries_id_seq = 5\<rparr>"
  by (simp add: db_backdated_def backdated_first_def backdated_second_def
      scenario_A_def db0_def post_eval transaction_number_env1 today_env1)

lemma db_tenths_eq:
  "db_tenths =
      \<lparr>accounts = default_accounts,
       transactions =
         [\<lparr>t_id = 1, t_transaction_number = ''TXN17000000000005500'',
           t_reference_number = None, t_transaction_type = ''crv'',
           t_description = ''Cash sale'', t_date = Some 19675, t_status = ''pending''\<rparr>,
          \<lparr>t_id = 2, t_transaction_number = ''TXN17000000000015500'',
           t_reference_number = None, t_transaction_type = ''crv'',
           t_description = ''Cash sale'', t_date = Some 19675, t_status = ''pending''\<rparr>],
       transaction_entries =
         [\<lparr>e_id = 1, e_transaction_id = Some 1, e_account_id = Some 1,
           e_debit_amount = Some (1 / 10), e_credit_amount = Some 0, e_description = None\<rparr>,
          \<lparr>e_id = 2, e_transaction_id = Some 1, e_account_id = Some 6,
           e_debit_amount = Some 0, e_credit_amount = Some (1 / 10), e_description = None\<rparr>,
          \<lparr>e_id = 3, e_transaction_id = Some 2, e_account_id = Some 2,
           e_debit_amount = Some (1 / 5), e_credit_amount = Some 0, e_description = None\<rparr>,
          \<lparr>e_id = 4, e_transaction_id = Some 2, e_account_id = Some 6,
           e_debit_amount = Some 0, e_credit_amount = Some (1 / 5), e_description = None\<rparr>],
       transactions_id_seq = 3, transaction_entries_id_seq = 5\<rparr>"
  by (simp add: db_tenths_def tenth_first_def tenth_second_def
      scenario_A_def db0_def post_eval transaction_number_env1 today_env1)

lemma sorted_default_accounts:
  "sort_key a_account_number default_accounts = default_accounts"
  by (simp add: default_accounts_def)

lemma default_accounts_of_type:
  "filter (\<lambda>a. a_account_type a = Asset) default_accounts = take 3 default_accounts"
  "filter (\<lambda>a. a_account_type a = Liability) default_accounts = [default_accounts ! 3]"
  "filter (\<lambda>a. a_account_type a = Equity) default_accounts = [default_accounts ! 4]"
  by (simp_all add: default_accounts_def)

lemma distinct_default_accounts: "distinct (map a_id default_accounts)"
  by (simp add: default_accounts_def)

lemmas spec_eval = spec_account_debits_def spec_account_credits_def spec_debit_amount_def
  spec_credit_amount_def default_accounts_def coalesce0_def double_sum_def parseFloat_def
  fsub_def

lemma totals_db_A:
  "double_sum (map (spec_account_debits db_A) default_accounts) = Fin 500"
  "double_sum (map (spec_account_credits db_A) default_accounts) = Fin 500"
  "double_sum (map (spec_debit_amount db_A) (take 3 default_accounts)) = Fin 500"
  "double_sum (map (spec_credit_amount db_A) [default_accounts ! 3]) = Fin 0"
  "double_sum (map (spec_credit_amount db_A) [default_accounts ! 4]) = Fin 0"
  by (simp_all add: db_A_eq spec_eval)

lemma totals_db_tenths:
  "double_sum (map (spec_account_debits db_tenths) default_accounts) =
     Fin (1351079888211149 / 4503599627370496)"
  "double_sum (map (spec_account_credits db_tenths) default_accounts) =
     Fin (5404319552844595 / 18014398509481984)"
  "double_sum (map (spec_debit_amount db_tenths) (take 3 default_accounts)) =
     Fin (1351079888211149 / 4503599627370496)"
  "double_sum (map (spec_credit_amount db_tenths) [default_accounts ! 3]) = Fin 0"
  "double_sum (map (spec_credit_amount db_tenths) [default_accounts ! 4]) = Fin 0"
  "fsub (Fin (5404319552844595 / 18014398509481984))
        (Fin (1351079888211149 / 4503599627370496)) = Fin (- 1 / 18014398509481984)"
  by (simp_all add: db_tenths_eq spec_eval)

section \<open>The balance of an account\<close>

lemma entries_of_empty:
  "\<forall>e \<in> set (transaction_entries d). e_account_id e \<noteq> Some accountId \<Longrightarrow>
   entries_of d accountId = []"
  by (simp add: entries_of_def filter_empty_conv)

text \<open>
  C10.  For an account that no transaction entry references, the balance query sums over
  no rows, both \<open>SUM\<close>s are NULL, and the handler turns the NULL into 0: the response is
  200 with \<open>balance = 0\<close>, neither null nor an error.
\<close>

theorem C10_balance_zero_without_entries:
  assumes "\<not> missing_token tok"
    and "\<forall>e \<in> set (transaction_entries d). e_account_id e \<noteq> Some accountId"
  shows "balance_query d accountId = None \<and>
         get_balance tok accountId d =
           Json 200 (JObj [(''account_id'', JNum (of_int accountId)), (''balance'', JNum 0)])"
proof -
  from assms(2) have none: "entries_of d accountId = []"
    by (rule entries_of_empty)
  then have q: "balance_query d accountId = None"
    by (simp add: balance_query_def sql_sum_def sql_minus_def)
  with assms(1) show ?thesis
    by (simp add: get_balance_def)
qed

text \<open>
  The theorem at work: account 1100, Bank, in the empty journal.
\<close>

theorem C10_balance_zero_witness:
  "balance_query db0 2 = None \<and>
   get_balance (Some ''tok'') 2 db0 =
     Json 200 (JObj [(''account_id'', JNum 2), (''balance'', JNum 0)])"
  using C10_balance_zero_without_entries [of "Some ''tok''" db0 2]
  by (simp add: missing_token_def db0_def)

text \<open>
  C1.  The balance query subtracts debits from credits for every account, whatever its
  type.  After the cash sale of Scenario A (debit Cash 500, credit Sales Revenue 500) the
  asset account 1000, Cash, therefore reports \<open>- 500\<close> where the normal-balance
  convention gives \<open>+ 500\<close>.
\<close>

theorem C1_cash_balance_after_scenario_A:
  "fst (post_transaction env0 scenario_A db0) =
     Json 200 (JObj [(''transaction_id'', JNum 1),
                     (''transaction_number'', JStr ''TXN17000000000005500''),
                     (''message'', JStr ''Transaction created successfully'')]) \<and>
   map a_account_number (accounts_by_id db_A 1) = [''1000''] \<and>
   map a_account_type (accounts_by_id db_A 1) = [Asset] \<and>
   get_balance (Some ''tok'') 1 db_A =
     Json 200 (JObj [(''account_id'', JNum 1), (''balance'', JNum (- 500))])"
  by (simp add: post_A get_balance_def db_A_eq missing_token_def balance_query_def
      entries_of_def sql_sum_def sql_minus_def coalesce0_def default_accounts_def
      accounts_by_id_def Let_def)

text \<open>
  C2.  The ledger's running balance is debits minus credits, the balance is credits
  minus debits.  After Scenario A the ledger of Cash has one row, with running balance
  \<open>500\<close>, while the balance of the same account is \<open>- 500\<close>.
\<close>

theorem C2_ledger_last_row_after_scenario_A:
  "map (field ''running_balance'') (ledger_query db_A 1) = [Some (JNum 500)] \<and>
   field ''balance'' (body (get_balance (Some ''tok'') 1 db_A)) = Some (JNum (- 500))"
  by (simp add: ledger_query_def ledger_row_def running_balance_def jnum_opt_def
      jstr_opt_def date_key_def get_balance_def db_A_eq missing_token_def balance_query_def
      entries_of_def sql_sum_def sql_minus_def coalesce0_def Let_def)

section \<open>Posting a transaction\<close>

lemma insert_transaction_effect:
  assumes "insert_transaction d num ref ty descr dt = (r, d1)"
  shows "accounts d1 = accounts d \<and> transaction_entries d1 = transaction_entries d \<and>
         (case r of
            None \<Rightarrow> transactions d1 = transactions d
          | Some newid \<Rightarrow> (\<exists>t. transactions d1 = transactions d @ [t] \<and> t_id t = newid))"
  using assms by (auto simp: insert_transaction_def Let_def split: if_splits)

lemma insert_entry_effect:
  assumes "insert_entry d tid e = (ok, d1)"
  shows "accounts d1 = accounts d \<and> transactions d1 = transactions d \<and>
         (if ok then (\<exists>x. transaction_entries d1 = transaction_entries d @ [x] \<and>
                          e_transaction_id x = Some tid \<and> e_account_id x = ei_account_id e)
          else transaction_entries d1 = transaction_entries d)"
  using assms by (auto simp: insert_entry_def Let_def split: if_splits)

lemma insert_entries_effect:
  assumes "insert_entries d tid es = (ok, d1)"
  shows "accounts d1 = accounts d \<and> transactions d1 = transactions d \<and>
         (\<exists>xs. transaction_entries d1 = transaction_entries d @ xs \<and>
               list_all (\<lambda>x. e_transaction_id x = Some tid) xs \<and>
               map e_account_id xs = take (length xs) (map ei_account_id es) \<and>
               (if ok then length xs = length es else length xs < length es))"
  using assms
proof (induction es arbitrary: d)
  case Nil
  then show ?case by simp
next
  case (Cons e es)
  obtain ok1 d2 where step: "insert_entry d tid e = (ok1, d2)"
    by (cases "insert_entry d tid e")
  note eff = insert_entry_effect [OF step]
  show ?case
  proof (cases ok1)
    case False
    with step Cons.prems have "ok = False" "d1 = d2" by simp_all
    with eff False show ?thesis by simp
  next
    case True
    with step Cons.prems have rest: "insert_entries d2 tid es = (ok, d1)" by simp
    from eff True obtain x where x: "transaction_entries d2 = transaction_entries d @ [x]"
      "e_transaction_id x = Some tid" "e_account_id x = ei_account_id e"
      by auto
    from Cons.IH [OF rest] obtain xs where xs:
      "transaction_entries d1 = transaction_entries d2 @ xs"
      "list_all (\<lambda>x. e_transaction_id x = Some tid) xs"
      "map e_account_id xs = take (length xs) (map ei_account_id es)"
      "if ok then length xs = length es else length xs < length es"
      and same: "accounts d1 = accounts d2" "transactions d1 = transactions d2"
      by auto
    have f1: "transaction_entries d1 = transaction_entries d @ (x # xs)"
      using x xs by simp
    have f2: "list_all (\<lambda>x. e_transaction_id x = Some tid) (x # xs)"
      using x xs by simp
    have f3: "map e_account_id (x # xs) =
        take (length (x # xs)) (map ei_account_id (e # es))"
      using x xs by simp
    have f4: "if ok then length (x # xs) = length (e # es)
        else length (x # xs) < length (e # es)"
      using xs(4) by (simp split: if_splits)
    show ?thesis
    proof (intro conjI)
      show "accounts d1 = accounts d" using same eff by simp
      show "transactions d1 = transactions d" using same eff by simp
      show "\<exists>xs. transaction_entries d1 = transaction_entries d @ xs \<and>
               list_all (\<lambda>x. e_transaction_id x = Some tid) xs \<and>
               map e_account_id xs = take (length xs) (map ei_account_id (e # es)) \<and>
               (if ok then length xs = length (e # es) else length xs < length (e # es))"
        using f1 f2 f3 f4 by (intro exI [of _ "x # xs"] conjI)
    qed
  qed
qed


lemma post_transaction_rejected:
  "validation_errors rq \<noteq> [] \<Longrightarrow>
   post_transaction ev rq d =
     (Json 400 (JObj [(''errors'', JArr (map JStr (validation_errors rq)))]), d)"
  "validation_errors rq = [] \<Longrightarrow> missing_token (rq_token rq) \<Longrightarrow>
   post_transaction ev rq d = (unauthorized, d)"
  "validation_errors rq = [] \<Longrightarrow> \<not> missing_token (rq_token rq) \<Longrightarrow>
   js_gt (js_abs (fsub (total_debits (rq_entries rq)) (total_credits (rq_entries rq))))
     tolerance \<Longrightarrow>
   post_transaction ev rq d = (imbalance_response, d)"
  by (simp_all add: post_transaction_def Let_def)

lemma post_transaction_accepted:
  assumes "validation_errors rq = []" and "\<not> missing_token (rq_token rq)"
    and "\<not> js_gt (js_abs (fsub (total_debits (rq_entries rq)) (total_credits (rq_entries rq))))
           tolerance"
  shows "post_transaction ev rq d =
     (case insert_transaction d (transaction_number ev) (rq_reference_number rq)
             (rq_transaction_type rq) (rq_description rq)
             (case rq_date rq of None \<Rightarrow> today ev | Some x \<Rightarrow> x) of
        (None, d1) \<Rightarrow> (server_error, d1)
      | (Some transactionId, d1) \<Rightarrow>
          (case insert_entries d1 transactionId (rq_entries rq) of
             (False, d2) \<Rightarrow> (server_error, d2)
           | (True, d2) \<Rightarrow>
               (Json 200 (JObj [(''transaction_id'', JNum (of_int transactionId)),
                                (''transaction_number'', JStr (transaction_number ev)),
                                (''message'', JStr ''Transaction created successfully'')]),
                d2)))"
  using assms by (simp add: post_transaction_def Let_def)

lemma validation_errors_empty:
  "(validation_errors rq = []) =
     (rq_transaction_type rq \<noteq> [] \<and> rq_description rq \<noteq> [] \<and> 2 \<le> length (rq_entries rq))"
  by (auto simp: validation_errors_def)

text \<open>
  C3 (as amended).  The handler sends the transaction row and then each entry row as a
  statement of its own; nothing groups them.  Whatever the outcome, the journal only
  grows, by at most one transaction row and a prefix of the entry rows.  A request
  answered with 400 or 401 leaves the journal as it was; a request answered with 200 has
  added exactly one transaction row and one entry row per submitted entry, all carrying
  the new transaction id; a request answered with 500 has added fewer entry rows than
  were submitted, and none without the transaction row.
\<close>

theorem C3_post_transaction_journal:
  assumes "post_transaction ev rq d = (resp, d')"
  shows "accounts d' = accounts d \<and>
    (\<exists>ts es. transactions d' = transactions d @ ts \<and>
       transaction_entries d' = transaction_entries d @ es \<and>
       (case resp of
          Json status j \<Rightarrow>
            if status = 200
            then (\<exists>t. ts = [t] \<and> list_all (\<lambda>e. e_transaction_id e = Some (t_id t)) es) \<and>
                 map e_account_id es = map ei_account_id (rq_entries rq)
            else ts = [] \<and> es = []
        | Send status s \<Rightarrow>
            length ts \<le> 1 \<and> length es < length (rq_entries rq) \<and> (ts = [] \<longrightarrow> es = [])))"
proof -
  let ?bal = "js_gt (js_abs (fsub (total_debits (rq_entries rq)) (total_credits (rq_entries rq))))
       tolerance"
  consider (invalid) "validation_errors rq \<noteq> []"
    | (no_token) "validation_errors rq = []" "missing_token (rq_token rq)"
    | (imbalance) "validation_errors rq = []" "\<not> missing_token (rq_token rq)" ?bal
    | (accepted) "validation_errors rq = []" "\<not> missing_token (rq_token rq)" "\<not> ?bal"
    by blast
  then show ?thesis
  proof cases
    case invalid
    with assms have "resp = Json 400 (JObj [(''errors'', JArr (map JStr (validation_errors rq)))])"
      and "d' = d"
      by (simp_all add: post_transaction_rejected(1))
    then show ?thesis by simp
  next
    case no_token
    with assms have "resp = unauthorized" and "d' = d"
      by (simp_all add: post_transaction_rejected(2))
    then show ?thesis by (simp add: unauthorized_def)
  next
    case imbalance
    with assms have "resp = imbalance_response" and "d' = d"
      by (simp_all add: post_transaction_rejected(3))
    then show ?thesis by (simp add: imbalance_response_def)
  next
    case accepted
    note unfolded = post_transaction_accepted [OF accepted, of ev d]
    from accepted(1) have "2 \<le> length (rq_entries rq)"
      by (simp add: validation_errors_empty)
    then have nonempty: "0 < length (rq_entries rq)"
      by linarith
    obtain r d1 where ins: "insert_transaction d (transaction_number ev) (rq_reference_number rq)
             (rq_transaction_type rq) (rq_description rq)
             (case rq_date rq of None \<Rightarrow> today ev | Some x \<Rightarrow> x) = (r, d1)"
      by (cases "insert_transaction d (transaction_number ev) (rq_reference_number rq)
             (rq_transaction_type rq) (rq_description rq)
             (case rq_date rq of None \<Rightarrow> today ev | Some x \<Rightarrow> x)")
    note eff1 = insert_transaction_effect [OF ins]
    show ?thesis
    proof (cases r)
      case None
      with unfolded ins assms have "resp = server_error" "d' = d1" by simp_all
      with eff1 None nonempty show ?thesis by (simp add: server_error_def)
    next
      case (Some transactionId)
      obtain ok d2 where loop: "insert_entries d1 transactionId (rq_entries rq) = (ok, d2)"
        by (cases "insert_entries d1 transactionId (rq_entries rq)")
      from insert_entries_effect [OF loop] obtain xs where xs:
        "transaction_entries d2 = transaction_entries d1 @ xs"
        "list_all (\<lambda>x. e_transaction_id x = Some transactionId) xs"
        "map e_account_id xs = take (length xs) (map ei_account_id (rq_entries rq))"
        "if ok then length xs = length (rq_entries rq) else length xs < length (rq_entries rq)"
        and same: "accounts d2 = accounts d1" "transactions d2 = transactions d1"
        by auto
      from eff1 Some obtain t where t: "transactions d1 = transactions d @ [t]"
        "t_id t = transactionId"
        by auto
      have d': "d' = d2" using unfolded ins Some loop assms by (cases ok) simp_all
      have acc: "accounts d' = accounts d" using d' same eff1 by simp
      have tr: "transactions d' = transactions d @ [t]" using d' same t by simp
      have en: "transaction_entries d' = transaction_entries d @ xs"
        using d' xs(1) eff1 by simp
      show ?thesis
      proof (cases ok)
        case True
        with unfolded ins Some loop assms have resp: "resp =
          Json 200 (JObj [(''transaction_id'', JNum (of_int transactionId)),
                          (''transaction_number'', JStr (transaction_number ev)),
                          (''message'', JStr ''Transaction created successfully'')])"
          by simp
        from True xs(3,4) have "map e_account_id xs = map ei_account_id (rq_entries rq)"
          by simp
        with acc tr en xs(2) t(2) resp show ?thesis by simp
      next
        case False
        with unfolded ins Some loop assms have resp: "resp = server_error" by simp
        from False xs(4) have "length xs < length (rq_entries rq)" by simp
        with acc tr en resp show ?thesis by (simp add: server_error_def)
      qed
    qed
  qed
qed

lemma post_dangling:
  "post_transaction env0 dangling_request db0 =
     (Send 500 ''Server error'',
      \<lparr>accounts = default_accounts,
       transactions =
         [\<lparr>t_id = 1, t_transaction_number = ''TXN17000000000005500'',
           t_reference_number = None, t_transaction_type = ''crv'',
           t_description = ''Cash sale'', t_date = Some 19675, t_status = ''pending''\<rparr>],
       transaction_entries =
         [\<lparr>e_id = 1, e_transaction_id = Some 1, e_account_id = Some 1,
           e_debit_amount = Some 500, e_credit_amount = Some 0, e_description = None\<rparr>],
       transactions_id_seq = 2, transaction_entries_id_seq = 3\<rparr>)"
  by (simp add: dangling_request_def scenario_A_def db0_def post_eval server_error_def
      imbalance_response_def)

text \<open>
  Counterexample to C3 as stated.  A balanced request whose second entry names a missing
  account is answered with 500 after the transaction row and the first entry row have
  been written: the journal holds transaction 1 with one of its two entries.
\<close>

theorem C3_partial_write_counterexample:
  "fst (post_transaction env0 dangling_request db0) = Send 500 ''Server error'' \<and>
   transactions db0 = [] \<and> transaction_entries db0 = [] \<and>
   map t_id (transactions (snd (post_transaction env0 dangling_request db0))) = [1] \<and>
   map entry_columns
       (transaction_entries (snd (post_transaction env0 dangling_request db0))) =
     [(Some 1, Some 1, Some 500, Some 0)] \<and>
   length (rq_entries dangling_request) = 2"
  by (simp add: post_dangling entry_columns_def) (simp add: db0_def dangling_request_def)

text \<open>
  The theorem at work on Scenario A: one transaction row and both entry rows are added.
\<close>

theorem C3_post_transaction_journal_witness:
  "accounts db_A = accounts db0 \<and>
   (\<exists>ts es. transactions db_A = transactions db0 @ ts \<and>
      transaction_entries db_A = transaction_entries db0 @ es \<and>
      (\<exists>t. ts = [t] \<and> list_all (\<lambda>e. e_transaction_id e = Some (t_id t)) es) \<and>
      map e_account_id es = [Some 1, Some 6])"
  using C3_post_transaction_journal [OF post_A]
  by (simp add: db_A_eq scenario_A_def)






lemma post_two_sided:
  "post_transaction env0 two_sided_request db0 =
     (Json 200 (JObj [(''transaction_id'', JNum 1),
                      (''transaction_number'', JStr ''TXN17000000000005500''),
                      (''message'', JStr ''Transaction created successfully'')]),
      \<lparr>accounts = default_accounts,
       transactions =
         [\<lparr>t_id = 1, t_transaction_number = ''TXN17000000000005500'',
           t_reference_number = None, t_transaction_type = ''crv'',
           t_description = ''Cash sale'', t_date = Some 19675, t_status = ''pending''\<rparr>],
       transaction_entries =
         [\<lparr>e_id = 1, e_transaction_id = Some 1, e_account_id = Some 1,
           e_debit_amount = Some 500, e_credit_amount = Some 500, e_description = None\<rparr>,
          \<lparr>e_id = 2, e_transaction_id = Some 1, e_account_id = Some 6,
           e_debit_amount = Some 0, e_credit_amount = Some 0, e_description = None\<rparr>],
       transactions_id_seq = 2, transaction_entries_id_seq = 3\<rparr>)"
  by (simp add: two_sided_request_def scenario_A_def db0_def post_eval server_error_def
      imbalance_response_def)

text \<open>
  Counterexample to C5 as stated.  A request whose first entry has debit and credit both
  500 and whose second entry has both 0 is accepted, and both rows are stored.
\<close>

theorem C5_two_sided_entries_accepted_counterexample:
  "map spec_exactly_one_nonzero (rq_entries two_sided_request) = [False, False] \<and>
   fst (post_transaction env0 two_sided_request db0) =
     Json 200 (JObj [(''transaction_id'', JNum 1),
                     (''transaction_number'', JStr ''TXN17000000000005500''),
                     (''message'', JStr ''Transaction created successfully'')]) \<and>
   map entry_columns
       (transaction_entries (snd (post_transaction env0 two_sided_request db0))) =
     [(Some 1, Some 1, Some 500, Some 500), (Some 1, Some 6, Some 0, Some 0)]"
  by (simp add: post_two_sided entry_columns_def)
     (simp add: two_sided_request_def spec_exactly_one_nonzero_def or0_def)

text \<open>
  C5 (as amended).  The validation error (status 400 with an \<open>errors\<close> list) is returned
  exactly when the transaction type is empty, the description is empty, or fewer than two
  entries are given, and then nothing is written.  The amounts of the individual entries
  play no part in it.
\<close>

theorem C5_validation_error_iff:
  "is_validation_error (fst (post_transaction ev rq d)) =
     (rq_transaction_type rq = [] \<or> rq_description rq = [] \<or> length (rq_entries rq) < 2) \<and>
   (is_validation_error (fst (post_transaction ev rq d)) \<longrightarrow>
      snd (post_transaction ev rq d) = d)"
proof -
  let ?bal = "js_gt (js_abs (fsub (total_debits (rq_entries rq)) (total_credits (rq_entries rq))))
       tolerance"
  have inv: "(validation_errors rq \<noteq> []) =
     (rq_transaction_type rq = [] \<or> rq_description rq = [] \<or> length (rq_entries rq) < 2)"
    by (auto simp: validation_errors_empty)
  consider (invalid) "validation_errors rq \<noteq> []"
    | (no_token) "validation_errors rq = []" "missing_token (rq_token rq)"
    | (imbalance) "validation_errors rq = []" "\<not> missing_token (rq_token rq)" ?bal
    | (accepted) "validation_errors rq = []" "\<not> missing_token (rq_token rq)" "\<not> ?bal"
    by blast
  then have "is_validation_error (fst (post_transaction ev rq d)) = (validation_errors rq \<noteq> []) \<and>
   (is_validation_error (fst (post_transaction ev rq d)) \<longrightarrow>
      snd (post_transaction ev rq d) = d)"
  proof cases
    case invalid
    then show ?thesis
      by (simp add: post_transaction_rejected(1) is_validation_error_def)
  next
    case no_token
    then show ?thesis
      by (simp add: post_transaction_rejected(2) is_validation_error_def unauthorized_def)
  next
    case imbalance
    then show ?thesis
      by (simp add: post_transaction_rejected(3) is_validation_error_def
          imbalance_response_def)
  next
    case accepted
    then show ?thesis
      by (simp add: post_transaction_accepted is_validation_error_def server_error_def
          split: prod.splits option.splits bool.splits)
  qed
  with inv show ?thesis by simp
qed

text \<open>
  The theorem at work: the single entry of Scenario C is a validation error and writes
  nothing; the request with a two-sided and an all-zero entry is not one.
\<close>

theorem C5_validation_error_iff_witness:
  "is_validation_error (fst (post_transaction env0 scenario_C db0)) \<and>
   length (rq_entries scenario_C) = 1 \<and>
   snd (post_transaction env0 scenario_C db0) = db0 \<and>
   \<not> is_validation_error (fst (post_transaction env0 two_sided_request db0))"
  using C5_validation_error_iff [of env0 scenario_C db0]
    C5_validation_error_iff [of env0 two_sided_request db0]
  by (simp add: scenario_C_def two_sided_request_def scenario_A_def)

section \<open>Deleting an account\<close>

text \<open>
  Counterexample to C9 as stated.  In the chart with a sub-account of Cash, no entry
  references Cash, yet deleting it is refused by the foreign key of the sub-account: the
  handler answers 500 and the account stays.
\<close>

theorem C9_delete_parent_account_counterexample:
  "entries_of db_tree 1 = [] \<and>
   delete_account (Some ''tok'') 1 db_tree = (Send 500 ''Server error'', db_tree) \<and>
   map a_account_number
       (accounts_by_id (snd (delete_account (Some ''tok'') 1 db_tree)) 1) = [''1000'']"
  by (simp add: delete_account_def sql_delete_account_def entries_of_def db_tree_def db0_def
      default_accounts_def missing_token_def server_error_def accounts_by_id_def Let_def)

text \<open>
  C9 (as amended).  With a token, deleting an account that some entry references is
  refused with status 400 and nothing changes.  When no entry references it and no other
  account names it as parent, the answer is 200 and no account row with that id remains.
\<close>

theorem C9_delete_account:
  assumes "\<not> missing_token tok"
  shows "((\<exists>e \<in> set (transaction_entries d). e_account_id e = Some accountId) \<longrightarrow>
            delete_account tok accountId d = (conflict_response, d)) \<and>
         ((\<forall>e \<in> set (transaction_entries d). e_account_id e \<noteq> Some accountId) \<and>
          (\<forall>a \<in> set (accounts d). a_parent_account_id a = Some accountId \<longrightarrow> a_id a = accountId)
            \<longrightarrow>
            delete_account tok accountId d =
              (Json 200 (JObj [(''msg'', JStr ''Account removed'')]),
               d\<lparr>accounts := filter (\<lambda>a. a_id a \<noteq> accountId) (accounts d)\<rparr>) \<and>
            accountId \<notin> a_id ` set (accounts (snd (delete_account tok accountId d))))"
proof (intro conjI impI)
  assume "\<exists>e \<in> set (transaction_entries d). e_account_id e = Some accountId"
  then have "entries_of d accountId \<noteq> []"
    by (auto simp: entries_of_def filter_empty_conv)
  with assms show "delete_account tok accountId d = (conflict_response, d)"
    by (simp add: delete_account_def conflict_response_def Let_def)
next
  assume free: "(\<forall>e \<in> set (transaction_entries d). e_account_id e \<noteq> Some accountId) \<and>
          (\<forall>a \<in> set (accounts d). a_parent_account_id a = Some accountId \<longrightarrow> a_id a = accountId)"
  then have none: "entries_of d accountId = []"
    by (simp add: entries_of_empty)
  from free have "sql_delete_account d accountId =
      Some (d\<lparr>accounts := filter (\<lambda>a. a_id a \<noteq> accountId) (accounts d)\<rparr>)"
    by (auto simp: sql_delete_account_def Let_def list_ex_iff)
  with assms none show del: "delete_account tok accountId d =
              (Json 200 (JObj [(''msg'', JStr ''Account removed'')]),
               d\<lparr>accounts := filter (\<lambda>a. a_id a \<noteq> accountId) (accounts d)\<rparr>)"
    by (simp add: delete_account_def Let_def)
  show "accountId \<notin> a_id ` set (accounts (snd (delete_account tok accountId d)))"
    by (auto simp: del)
qed

text \<open>
  The theorem at work: Cash cannot be deleted after Scenario A; Bank, which has neither
  entries nor sub-accounts, is removed from the chart.
\<close>

theorem C9_delete_account_witness:
  "delete_account (Some ''tok'') 1 db_A = (conflict_response, db_A) \<and>
   fst (delete_account (Some ''tok'') 2 db0) = Json 200 (JObj [(''msg'', JStr ''Account removed'')]) \<and>
   map a_id (accounts (snd (delete_account (Some ''tok'') 2 db0))) = [1, 3, 4, 5, 6, 7, 8, 9]"
  using C9_delete_account [of "Some ''tok''" db_A 1] C9_delete_account [of "Some ''tok''" db0 2]
  by (simp add: missing_token_def db_A_eq) (simp add: db0_def default_accounts_def)

section \<open>Sums over joins and groups\<close>

lemma coalesce0_sql_sum:
  "coalesce0 (sql_sum xs) = sum_list (map coalesce0 xs)"
proof -
  have "sum_list (map coalesce0 (filter (\<lambda>x. x \<noteq> None) xs)) = sum_list (map coalesce0 xs)"
    by (induction xs) (auto simp: coalesce0_def)
  then show ?thesis
    by (cases "filter (\<lambda>x. x \<noteq> None) xs") (auto simp: sql_sum_def coalesce0_def)
qed

lemma sum_col_eq:
  "sum_col col tes = sum_list (map (\<lambda>te. coalesce0 (Option.bind te col)) tes)"
  by (simp add: sum_col_def coalesce0_sql_sum comp_def)

lemma sum_col0_eq:
  "sum_col0 col tes = sum_list (map (\<lambda>te. coalesce0 (Option.bind te col)) tes)"
proof -
  have "coalesce0 (sql_sum (map (\<lambda>te. Some (coalesce0 (Option.bind te col))) tes)) =
        sum_list (map coalesce0 (map (\<lambda>te. Some (coalesce0 (Option.bind te col))) tes))"
    by (rule coalesce0_sql_sum)
  also have "\<dots> = sum_list (map (\<lambda>te. coalesce0 (Option.bind te col)) tes)"
    by (simp add: comp_def) (simp add: coalesce0_def)
  finally show ?thesis
    by (simp add: sum_col0_def)
qed

lemma left_join_entries_sum:
  "sum_list (map (\<lambda>te. coalesce0 (Option.bind te col)) (left_join_entries d a)) =
   sum_list (map (\<lambda>e. coalesce0 (col e)) (entries_of d (a_id a)))"
  by (simp add: left_join_entries_def Let_def comp_def coalesce0_def)

lemma left_join_entries_nonempty: "left_join_entries d a \<noteq> []"
  by (simp add: left_join_entries_def Let_def)

text \<open>
  Grouping a join whose rows come account by account, on a key that tells the accounts
  apart, gives one group for each account, in the order of the accounts.
\<close>

lemma group_by_blocks:
  assumes "distinct (map k as)" and "\<forall>a \<in> set as. blk a \<noteq> []"
  shows "group_by (\<lambda>(a, x). k a) (concat (map (\<lambda>a. map (Pair a) (blk a)) as)) =
         map (\<lambda>a. (k a, map (Pair a) (blk a))) as"
  using assms
proof (induction as)
  case Nil
  then show ?case by simp
next
  case (Cons a as)
  let ?rest = "concat (map (\<lambda>a. map (Pair a) (blk a)) as)"
  obtain b bs where blk: "blk a = b # bs"
    using Cons.prems(2) by (cases "blk a") auto
  have "k y \<noteq> k a" if "y \<in> set as" for y
  proof
    assume "k y = k a"
    with that have "k a \<in> k ` set as"
      by (metis imageI)
    with Cons.prems(1) show False
      by simp
  qed
  then have notin: "\<forall>x \<in> set ?rest. k (fst x) \<noteq> k a"
    by auto
  have same: "filter (\<lambda>x. (case x of (a', x') \<Rightarrow> k a') = k a) ?rest = []"
    using notin by (auto simp: filter_empty_conv)
  have other: "filter (\<lambda>x. (case x of (a', x') \<Rightarrow> k a') \<noteq> k a) ?rest = ?rest"
    using notin by (auto simp: filter_id_conv)
  have own: "filter (\<lambda>x. (case x of (a', x') \<Rightarrow> k a') = k a) (map (Pair a) bs) = map (Pair a) bs"
    "filter (\<lambda>x. (case x of (a', x') \<Rightarrow> k a') \<noteq> k a) (map (Pair a) bs) = []"
    by (simp_all add: filter_id_conv filter_empty_conv)
  have ih: "group_by (\<lambda>(a, x). k a) ?rest = map (\<lambda>a. (k a, map (Pair a) (blk a))) as"
    using Cons by simp
  show ?case
    by (simp add: blk same other own ih)
qed

lemma filter_blocks:
  "filter (\<lambda>(a, x). Q a) (concat (map (\<lambda>a. map (Pair a) (blk a)) as)) =
   concat (map (\<lambda>a. map (Pair a) (blk a)) (filter Q as))"
  by (induction as) (simp_all add: filter_id_conv filter_empty_conv)

lemma distinct_key:
  assumes "distinct (map a_id as)" and "\<And>a. fst (k a) = a_id a"
  shows "distinct (map k as)"
proof -
  have "map a_id as = map fst (map k as)"
    by (simp add: assms(2))
  with assms(1) show ?thesis
    by (metis distinct_map)
qed

lemma insort_key_map:
  "insort_key f (g x) (map g xs) = map g (insort_key (\<lambda>y. f (g y)) x xs)"
  by (induction xs) simp_all

lemma sort_key_map:
  "sort_key f (map g xs) = map g (sort_key (\<lambda>y. f (g y)) xs)"
  by (induction xs) (simp_all add: insort_key_map)

lemma foldl_fadd_map:
  "foldl (\<lambda>sum row. fadd sum (parseFloat (f row))) (Fin 0) (map g xs) =
   double_sum (map (\<lambda>x. f (g x)) xs)"
  by (simp add: double_sum_def foldl_map)

lemma json_bools_jsnum [simp]: "json_bools (jsnum_json x) = []"
  by (cases x) simp_all

section \<open>Trial balance and balance sheet\<close>

lemma spec_account_debits_fun:
  "spec_account_debits d =
     (\<lambda>a. sum_list (map (\<lambda>e. coalesce0 (e_debit_amount e)) (entries_of d (a_id a))))"
  by (simp add: fun_eq_iff spec_account_debits_def entries_of_def)

lemma spec_account_credits_fun:
  "spec_account_credits d =
     (\<lambda>a. sum_list (map (\<lambda>e. coalesce0 (e_credit_amount e)) (entries_of d (a_id a))))"
  by (simp add: fun_eq_iff spec_account_credits_def entries_of_def)

lemma sum_col0_block:
  "sum_col0 e_debit_amount (left_join_entries d a) =
     spec_account_debits d a"
  "sum_col0 e_credit_amount (left_join_entries d a) =
     spec_account_credits d a"
  by (simp_all add: sum_col0_eq comp_def left_join_entries_sum spec_account_debits_fun
      spec_account_credits_fun)

lemma sum_col_block:
  "sum_col e_debit_amount (left_join_entries d a) =
     spec_account_debits d a"
  "sum_col e_credit_amount (left_join_entries d a) =
     spec_account_credits d a"
  by (simp_all add: sum_col_eq comp_def left_join_entries_sum spec_account_debits_fun
      spec_account_credits_fun)

text \<open>
  The rows of the trial-balance query: one for each account, in the order of the account
  numbers, with the account's entry totals.
\<close>

lemma trial_balance_query_rows:
  assumes "distinct (map a_id (accounts d))"
  shows "trial_balance_query d = map (tb_row_of d) (by_account_number d)"
proof -
  let ?k = "\<lambda>a. (a_id a, a_account_number a, a_account_name a, a_account_type a)"
  have "distinct (map ?k (accounts d))"
    using assms by (rule distinct_key) simp
  then have groups: "group_by (\<lambda>(a, te). ?k a) (joined2 d) =
      map (\<lambda>a. (?k a, map (Pair a) (left_join_entries d a))) (accounts d)"
    unfolding joined2_def by (rule group_by_blocks) (simp add: left_join_entries_nonempty)
  show ?thesis
    by (simp add: trial_balance_query_def Let_def groups comp_def sum_col0_block
        sort_key_map by_account_number_def)
       (simp add: tb_row_of_def [abs_def])
qed

text \<open>
  The rows of the three balance-sheet queries: one for each account of the type, in the
  order of the accounts table.
\<close>

lemma amount_query_rows:
  assumes "distinct (map a_id (accounts d))"
  shows "group_by (\<lambda>(a, te). (a_id a, a_account_name a))
           (filter (\<lambda>(a, te). a_account_type a = ty) (joined2 d)) =
         map (\<lambda>a. ((a_id a, a_account_name a), map (Pair a) (left_join_entries d a)))
           (accounts_of_type d ty)"
proof -
  let ?k = "\<lambda>a. (a_id a, a_account_name a)"
  have "distinct (map a_id (accounts_of_type d ty))"
    using assms by (simp add: accounts_of_type_def distinct_map_filter)
  then have "distinct (map ?k (accounts_of_type d ty))"
    by (rule distinct_key) simp
  then have "group_by (\<lambda>(a, te). ?k a)
      (concat (map (\<lambda>a. map (Pair a) (left_join_entries d a)) (accounts_of_type d ty))) =
      map (\<lambda>a. (?k a, map (Pair a) (left_join_entries d a))) (accounts_of_type d ty)"
    by (rule group_by_blocks) (simp add: left_join_entries_nonempty)
  then show ?thesis
    by (simp add: joined2_def filter_blocks accounts_of_type_def)
qed

lemma assets_query_rows:
  assumes "distinct (map a_id (accounts d))"
  shows "assets_query d = map (amount_row_of spec_debit_amount d) (accounts_of_type d Asset)"
  by (simp add: assets_query_def Let_def amount_query_rows [OF assms] comp_def sum_col_block
      amount_row_of_def [abs_def] spec_debit_amount_def)

lemma liabilities_query_rows:
  assumes "distinct (map a_id (accounts d))"
  shows "liabilities_query d =
     map (amount_row_of spec_credit_amount d) (accounts_of_type d Liability)"
  by (simp add: liabilities_query_def Let_def amount_query_rows [OF assms] comp_def
      sum_col_block amount_row_of_def [abs_def] spec_credit_amount_def)

lemma equity_query_rows:
  assumes "distinct (map a_id (accounts d))"
  shows "equity_query d = map (amount_row_of spec_credit_amount d) (accounts_of_type d Equity)"
  by (simp add: equity_query_def Let_def amount_query_rows [OF assms] comp_def sum_col_block
      amount_row_of_def [abs_def] spec_credit_amount_def)

lemma json_bools_tb_rows: "json_bools (json_tb_row r) = []"
  by (simp add: json_tb_row_def json_account_type_def)

lemma json_bools_amount_rows: "json_bools (json_amount_row r) = []"
  by (simp add: json_amount_row_def)

lemma trial_balance_response:
  assumes "\<not> missing_token tok" and "distinct (map a_id (accounts d))"
  shows "trial_balance tok d =
     Json 200 (JObj [(''accounts'', JArr (map json_tb_row (map (tb_row_of d) (by_account_number d)))),
        (''totals'',
         JObj [(''total_debits'',
                jsnum_json (double_sum (map (spec_account_debits d) (by_account_number d)))),
               (''total_credits'',
                jsnum_json (double_sum (map (spec_account_credits d) (by_account_number d)))),
               (''net_difference'',
                jsnum_json
                  (fsub (double_sum (map (spec_account_credits d) (by_account_number d)))
                        (double_sum (map (spec_account_debits d) (by_account_number d)))))])])"
  using assms(1)
  by (simp add: trial_balance_def Let_def trial_balance_query_rows [OF assms(2)]
      foldl_fadd_map tb_row_of_def)

lemma balance_sheet_response:
  assumes "\<not> missing_token tok" and "distinct (map a_id (accounts d))"
  shows "balance_sheet tok d =
     Json 200 (JObj [
        (''assets'', JArr (map json_amount_row
           (map (amount_row_of spec_debit_amount d) (accounts_of_type d Asset)))),
        (''liabilities'', JArr (map json_amount_row
           (map (amount_row_of spec_credit_amount d) (accounts_of_type d Liability)))),
        (''equity'', JArr (map json_amount_row
           (map (amount_row_of spec_credit_amount d) (accounts_of_type d Equity)))),
        (''totals'',
         JObj [(''total_assets'',
                jsnum_json (double_sum (map (spec_debit_amount d) (accounts_of_type d Asset)))),
               (''total_liabilities'',
                jsnum_json
                  (double_sum (map (spec_credit_amount d) (accounts_of_type d Liability)))),
               (''total_equity'',
                jsnum_json (double_sum (map (spec_credit_amount d) (accounts_of_type d Equity)))),
               (''total_liabilities_and_equity'',
                jsnum_json
                  (fadd (double_sum (map (spec_credit_amount d) (accounts_of_type d Liability)))
                        (double_sum (map (spec_credit_amount d) (accounts_of_type d Equity)))))])])"
  using assms(1)
  by (simp add: balance_sheet_def Let_def assets_query_rows [OF assms(2)]
      liabilities_query_rows [OF assms(2)] equity_query_rows [OF assms(2)]
      foldl_fadd_map amount_row_of_def)

text \<open>
  Counterexample to C6 as stated.  After Scenario A the trial balance reports 500 on both
  sides, and its result has no \<open>balanced\<close> field and no boolean anywhere.
\<close>

theorem C6_no_balanced_field_counterexample:
  "field ''totals'' (body (trial_balance (Some ''tok'') db_A)) =
     Some (JObj [(''total_debits'', JNum 500), (''total_credits'', JNum 500),
                 (''net_difference'', JNum 0)]) \<and>
   field ''balanced'' (body (trial_balance (Some ''tok'') db_A)) = None \<and>
   json_bools (body (trial_balance (Some ''tok'') db_A)) = []"
proof -
  have tok: "\<not> missing_token (Some ''tok'')"
    by (simp add: missing_token_def)
  have ids: "distinct (map a_id (accounts db_A))"
    by (simp add: db_A_eq distinct_default_accounts)
  have order: "by_account_number db_A = default_accounts"
    by (simp add: by_account_number_def db_A_eq sorted_default_accounts)
  show ?thesis
    by (simp add: trial_balance_response [OF tok ids] order totals_db_A(1,2)
        json_bools_tb_rows fsub_def)
qed

text \<open>
  C6 (as amended).  With a token the trial balance always answers 200, whatever the
  journal holds (the ids of the accounts are distinct, \<open>id\<close> being the primary key).  It
  has one row for each account, in the order of the account numbers, with the account's
  entry debits and credits.  Its totals are \<open>total_debits\<close> and \<open>total_credits\<close>, the
  binary64 sums of the rows' debits and credits taken in that order, and
  \<open>net_difference\<close>, the binary64 difference \<open>total_credits - total_debits\<close>.  No
  boolean occurs in the result: an unbalanced state shows as a non-zero
  \<open>net_difference\<close>, and nothing is thrown.
\<close>

theorem C6_trial_balance_totals:
  assumes "\<not> missing_token tok" and "distinct (map a_id (accounts d))"
  shows "trial_balance tok d =
     Json 200 (JObj [(''accounts'', JArr (map json_tb_row (map (tb_row_of d) (by_account_number d)))),
        (''totals'',
         JObj [(''total_debits'',
                jsnum_json (double_sum (map (spec_account_debits d) (by_account_number d)))),
               (''total_credits'',
                jsnum_json (double_sum (map (spec_account_credits d) (by_account_number d)))),
               (''net_difference'',
                jsnum_json
                  (fsub (double_sum (map (spec_account_credits d) (by_account_number d)))
                        (double_sum (map (spec_account_debits d) (by_account_number d)))))])]) \<and>
     json_bools (body (trial_balance tok d)) = []"
  by (simp add: trial_balance_response [OF assms] json_bools_tb_rows)

text \<open>
  The theorem at work after two receipts, of 0.10 into Cash and of 0.20 into Bank, both
  credited to Sales Revenue.  The debits of the rows, 0.10 and 0.20, add up to the
  binary64 number 0.30000000000000004; the credits are the one amount 0.30, whose binary64
  number is a little less than 0.3; so \<open>net_difference\<close> is \<open>- 1 / 2 ^ 54\<close> although the
  journal balances.
\<close>

theorem C6_trial_balance_totals_witness:
  "trial_balance (Some ''tok'') db_tenths =
     Json 200 (JObj [(''accounts'', JArr (map json_tb_row (map (tb_row_of db_tenths) default_accounts))),
        (''totals'',
         JObj [(''total_debits'', JNum (1351079888211149 / 4503599627370496)),
               (''total_credits'', JNum (5404319552844595 / 18014398509481984)),
               (''net_difference'', JNum (- 1 / 18014398509481984))])]) \<and>
     json_bools (body (trial_balance (Some ''tok'') db_tenths)) = []"
proof -
  have tok: "\<not> missing_token (Some ''tok'')"
    by (simp add: missing_token_def)
  have ids: "distinct (map a_id (accounts db_tenths))"
    by (simp add: db_tenths_eq distinct_default_accounts)
  have order: "by_account_number db_tenths = default_accounts"
    by (simp add: by_account_number_def db_tenths_eq sorted_default_accounts)
  show ?thesis
    by (rule C6_trial_balance_totals [OF tok ids,
          unfolded order totals_db_tenths(1,2,6) jsnum_json.simps])
qed

text \<open>
  Counterexample to C7 as stated.  After Scenario A the balance sheet reports assets of
  500 against liabilities plus equity of 0.  The result holds the four totals and no
  boolean: the mismatch is neither checked nor flagged.
\<close>

theorem C7_no_integrity_flag_counterexample:
  "field ''totals'' (body (balance_sheet (Some ''tok'') db_A)) =
     Some (JObj [(''total_assets'', JNum 500), (''total_liabilities'', JNum 0),
                 (''total_equity'', JNum 0), (''total_liabilities_and_equity'', JNum 0)]) \<and>
   json_bools (body (balance_sheet (Some ''tok'') db_A)) = []"
proof -
  have tok: "\<not> missing_token (Some ''tok'')"
    by (simp add: missing_token_def)
  have ids: "distinct (map a_id (accounts db_A))"
    by (simp add: db_A_eq distinct_default_accounts)
  have types: "accounts_of_type db_A Asset = take 3 default_accounts"
    "accounts_of_type db_A Liability = [default_accounts ! 3]"
    "accounts_of_type db_A Equity = [default_accounts ! 4]"
    by (simp_all only: accounts_of_type_def db_A_eq db.simps default_accounts_of_type)
  show ?thesis
    by (simp add: balance_sheet_response [OF tok ids] json_bools_amount_rows)
       (simp only: types totals_db_A(3,4,5) jsnum_json.simps fadd.simps add_0_left
          round_double_0 simp_thms)
qed

text \<open>
  C7 (as amended).  With a token the balance sheet always answers 200, whatever the
  journal holds (the ids of the accounts are distinct).  It has one row for each asset
  account with the account's debits minus credits, and one row for each liability and
  each equity account with the account's credits minus debits, in the order in which the
  accounts are stored.  Its totals are \<open>total_assets\<close>, \<open>total_liabilities\<close> and
  \<open>total_equity\<close>, the binary64 sums of the rows' amounts in that order, and
  \<open>total_liabilities_and_equity\<close>, the binary64 sum of the latter two.  The two sides
  are returned next to each other and not compared: no boolean occurs in the result,
  nothing is thrown and nothing is adjusted.
\<close>

theorem C7_balance_sheet_totals:
  assumes "\<not> missing_token tok" and "distinct (map a_id (accounts d))"
  shows "balance_sheet tok d =
     Json 200 (JObj [
        (''assets'', JArr (map json_amount_row
           (map (amount_row_of spec_debit_amount d) (accounts_of_type d Asset)))),
        (''liabilities'', JArr (map json_amount_row
           (map (amount_row_of spec_credit_amount d) (accounts_of_type d Liability)))),
        (''equity'', JArr (map json_amount_row
           (map (amount_row_of spec_credit_amount d) (accounts_of_type d Equity)))),
        (''totals'',
         JObj [(''total_assets'',
                jsnum_json (double_sum (map (spec_debit_amount d) (accounts_of_type d Asset)))),
               (''total_liabilities'',
                jsnum_json
                  (double_sum (map (spec_credit_amount d) (accounts_of_type d Liability)))),
               (''total_equity'',
                jsnum_json (double_sum (map (spec_credit_amount d) (accounts_of_type d Equity)))),
               (''total_liabilities_and_equity'',
                jsnum_json
                  (fadd (double_sum (map (spec_credit_amount d) (accounts_of_type d Liability)))
                        (double_sum (map (spec_credit_amount d) (accounts_of_type d Equity)))))])]) \<and>
     json_bools (body (balance_sheet tok d)) = []"
  by (simp add: balance_sheet_response [OF assms] json_bools_amount_rows)

text \<open>
  The theorem at work after the receipts of 0.10 into Cash and 0.20 into Bank: the asset
  rows 0.10, 0.20 and 0 add up to the binary64 number 0.30000000000000004.
\<close>

theorem C7_balance_sheet_totals_witness:
  "balance_sheet (Some ''tok'') db_tenths =
     Json 200 (JObj [
        (''assets'', JArr (map json_amount_row
           (map (amount_row_of spec_debit_amount db_tenths) (take 3 default_accounts)))),
        (''liabilities'', JArr (map json_amount_row
           (map (amount_row_of spec_credit_amount db_tenths) [default_accounts ! 3]))),
        (''equity'', JArr (map json_amount_row
           (map (amount_row_of spec_credit_amount db_tenths) [default_accounts ! 4]))),
        (''totals'',
         JObj [(''total_assets'', JNum (1351079888211149 / 4503599627370496)),
               (''total_liabilities'', JNum 0),
               (''total_equity'', JNum 0),
               (''total_liabilities_and_equity'', JNum 0)])]) \<and>
     json_bools (body (balance_sheet (Some ''tok'') db_tenths)) = []"
proof -
  have tok: "\<not> missing_token (Some ''tok'')"
    by (simp add: missing_token_def)
  have ids: "distinct (map a_id (accounts db_tenths))"
    by (simp add: db_tenths_eq distinct_default_accounts)
  have types: "accounts_of_type db_tenths Asset = take 3 default_accounts"
    "accounts_of_type db_tenths Liability = [default_accounts ! 3]"
    "accounts_of_type db_tenths Equity = [default_accounts ! 4]"
    by (simp_all only: accounts_of_type_def db_tenths_eq db.simps default_accounts_of_type)
  have sum0: "fadd (Fin 0) (Fin 0) = Fin 0"
    by simp
  show ?thesis
    by (rule C7_balance_sheet_totals [OF tok ids,
          unfolded types totals_db_tenths(3,4,5) sum0 jsnum_json.simps])
qed

section \<open>Income statement\<close>

lemma open_literal_no_quote:
  "CHR 0x27 \<notin> set cs \<Longrightarrow> open_literal inside cs = inside"
  by (induction cs) auto

lemma open_literal_append:
  "open_literal inside (xs @ ys) = open_literal (open_literal inside xs) ys"
  by (induction xs arbitrary: inside) simp_all

lemma date_condition_no_quote: "CHR 0x27 \<notin> set (date_condition start_date end_date)"
  by (simp add: date_condition_def)

lemma unterminated_revenueQuery:
  "unterminated_literal (revenueQuery start_date end_date)"
  by (simp add: unterminated_literal_def revenueQuery_def open_literal_append
      open_literal_no_quote [OF date_condition_no_quote])

lemma unterminated_expenseQuery:
  "unterminated_literal (expenseQuery start_date end_date)"
  by (simp add: unterminated_literal_def expenseQuery_def open_literal_append
      open_literal_no_quote [OF date_condition_no_quote])

lemma rejects_unterminated_lexing_db: "rejects_unterminated lexing_db"
  by (simp add: rejects_unterminated_def lexing_db_def)

text \<open>
  C8.  The statement that the handler sends for the revenue accounts ends inside the
  string constant \<open>'revenue\<close>, whose closing quote is missing, and so does the one for the
  expense accounts; this holds with and without a date range.  A database that refuses a
  statement with an unterminated string constant, as PostgreSQL does, makes \<open>db.query\<close>
  throw, and every request that carries a token is answered with status 500 and the text
  \<open>Server error\<close>: no \<open>net_income\<close> is returned for any date range.
\<close>

theorem C8_income_statement_server_error:
  assumes "\<not> missing_token tok" and "rejects_unterminated query"
  shows "unterminated_literal (revenueQuery start_date end_date) \<and>
     unterminated_literal (expenseQuery start_date end_date) \<and>
     income_statement query tok start_date end_date = Send 500 ''Server error''"
proof -
  have "query (revenueQuery start_date end_date) (date_params start_date end_date) = None"
    using assms(2) unterminated_revenueQuery by (simp add: rejects_unterminated_def)
  with assms(1) show ?thesis
    by (simp add: income_statement_def server_error_def unterminated_revenueQuery
        unterminated_expenseQuery)
qed

text \<open>
  The theorem at work on a database that reads the statement text: a request for the
  days 19670 to 19680 and a request without dates both end with status 500.
\<close>

theorem C8_income_statement_server_error_witness:
  "income_statement lexing_db (Some ''tok'') (Some 19670) (Some 19680) =
     Send 500 ''Server error'' \<and>
   income_statement lexing_db (Some ''tok'') None None = Send 500 ''Server error'' \<and>
   unterminated_literal (revenueQuery (Some 19670) (Some 19680)) \<and>
   unterminated_literal (expenseQuery None None)"
proof -
  have tok: "\<not> missing_token (Some ''tok'')"
    by (simp add: missing_token_def)
  show ?thesis
    using C8_income_statement_server_error [OF tok rejects_unterminated_lexing_db,
        of "Some 19670" "Some 19680"]
      C8_income_statement_server_error [OF tok rejects_unterminated_lexing_db, of None None]
    by simp
qed

section \<open>More on the balance and the ledger\<close>

text \<open>
  The running balance of a ledger row sums the entries with an id up to the row's id,
  while the rows are ordered by transaction date.  When a transaction is posted later
  with an earlier date, the last row is not the one with the largest id: here the ledger
  of Cash ends with a running balance of 100 although its entries total 150 (and the
  balance endpoint reports \<open>- 150\<close>).
\<close>

lemma ledger_backdated:
  "map (\<lambda>r. (field ''id'' r, field ''date'' r, field ''running_balance'' r))
       (ledger_query db_backdated 1) =
     [(Some (JNum 3), Some (JNum 19670), Some (JNum 150)),
      (Some (JNum 1), Some (JNum 19680), Some (JNum 100))] \<and>
   get_balance (Some ''tok'') 1 db_backdated =
     Json 200 (JObj [(''account_id'', JNum 1), (''balance'', JNum (- 150))])"
  by (simp add: ledger_query_def ledger_row_def running_balance_def jnum_opt_def
      jstr_opt_def date_key_def get_balance_def db_backdated_eq missing_token_def
      balance_query_def entries_of_def sql_sum_def sql_minus_def coalesce0_def Let_def)

text \<open>
  For every account, of any type, the balance endpoint returns the account's credits
  minus its debits.
\<close>

lemma get_balance_credit_minus_debit:
  assumes "\<not> missing_token tok"
  shows "get_balance tok (a_id a) d =
     Json 200 (JObj [(''account_id'', JNum (of_int (a_id a))),
                     (''balance'', JNum (spec_account_credits d a - spec_account_debits d a))])"
proof (cases "entries_of d (a_id a)")
  case Nil
  with assms show ?thesis
    by (simp add: get_balance_def balance_query_def sql_sum_def sql_minus_def
        spec_account_credits_fun spec_account_debits_fun)
next
  case (Cons e es)
  with assms show ?thesis
    by (simp add: get_balance_def balance_query_def sql_sum_def sql_minus_def
        spec_account_credits_fun spec_account_debits_fun coalesce0_def comp_def)
qed

end
